theory Spec2Isabelle
  imports Main "HOL-Library.Log_Nat"
begin

section \<open>Python floats\<close>

text \<open>
  A Python \<open>float\<close> is an IEEE-754 binary64 number. The finite ones are modelled by the
  rational they denote, and every arithmetic operation rounds its exact result to the nearest
  number with a 53-bit significand, ties to even. The exponent range is not modelled: all
  numbers the notebooks compute themselves lie between \<open>1e-7\<close> and \<open>6000\<close>, far from
  overflow and underflow. Zero has no sign here.
\<close>

type_synonym double = rat

definition pow2 :: "int \<Rightarrow> rat" where
  "pow2 e = (if 0 \<le> e then 2 ^ nat e else 1 / 2 ^ nat (- e))"

text \<open>The exponent \<open>e\<close> with \<open>2^e \<le> x < 2^(e+1)\<close>, for positive \<open>x\<close>.\<close>

definition ilog2 :: "rat \<Rightarrow> int" where
  "ilog2 x = (if 1 \<le> x then bitlen \<lfloor>x\<rfloor> - 1 else - bitlen (\<lceil>1 / x\<rceil> - 1))"

definition round_half_even :: "rat \<Rightarrow> int" where
  "round_half_even x =
     (if x - of_int \<lfloor>x\<rfloor> < 1 / 2 then \<lfloor>x\<rfloor>
      else if 1 / 2 < x - of_int \<lfloor>x\<rfloor> then \<lfloor>x\<rfloor> + 1
      else if even \<lfloor>x\<rfloor> then \<lfloor>x\<rfloor> else \<lfloor>x\<rfloor> + 1)"

text \<open>Rounding to a multiple of \<open>2^e\<close>.\<close>

definition round_at :: "rat \<Rightarrow> int \<Rightarrow> rat" where
  "round_at a e = of_int (round_half_even (a / pow2 e)) * pow2 e"

definition fl :: "rat \<Rightarrow> double" where
  "fl x = (if x = 0 then 0 else sgn x * round_at \<bar>x\<bar> (ilog2 \<bar>x\<bar> - 52))"

definition fadd :: "double \<Rightarrow> double \<Rightarrow> double" where "fadd a b = fl (a + b)"
definition fsub :: "double \<Rightarrow> double \<Rightarrow> double" where "fsub a b = fl (a - b)"
definition fmul :: "double \<Rightarrow> double \<Rightarrow> double" where "fmul a b = fl (a * b)"
definition fdiv :: "double \<Rightarrow> double \<Rightarrow> double" where "fdiv a b = fl (a / b)"

section \<open>NumPy\<close>

text \<open>
  \<open>np.linspace(start, stop, num)\<close> (library code, not part of the repository) computes
  \<open>step = (stop - start) / (num - 1)\<close>, then \<open>arange(num) * step + start\<close> elementwise, and
  overwrites the last entry with \<open>stop\<close>.
\<close>

definition linspace_points :: "double \<Rightarrow> double \<Rightarrow> nat \<Rightarrow> double list" where
  "linspace_points start step n = map (\<lambda>i. fadd (fmul (of_nat i) step) start) [0..<n]"

definition linspace :: "double \<Rightarrow> double \<Rightarrow> nat \<Rightarrow> double list" where
  "linspace start stop num =
     (if num = 0 then []
      else if num = 1 then [start]
      else linspace_points start (fdiv (fsub stop start) (of_nat (num - 1))) (num - 1) @ [stop])"

section \<open>Programs: exceptions, external state and the trace of external calls\<close>

datatype exn = Exception string

text \<open>
  The world of a running notebook: \<open>ext\<close> is the state of everything outside the notebook's
  own code (the objects of the libraries, their random number generator); \<open>trace\<close> lists, in
  order, what the notebook did to the outside: the lines it printed, the library calls it made
  with their arguments and their outcome. An exception leaves the world as it was when it was
  raised.
\<close>

record ('x, 'ev) world =
  ext :: 'x
  trace :: "'ev list"

type_synonym ('a, 'x, 'ev) prog = "('x, 'ev) world \<Rightarrow> (exn + 'a) \<times> ('x, 'ev) world"

definition ret :: "'a \<Rightarrow> ('a, 'x, 'ev) prog" where
  "ret a w = (Inr a, w)"

definition bnd :: "('a, 'x, 'ev) prog \<Rightarrow> ('a \<Rightarrow> ('b, 'x, 'ev) prog) \<Rightarrow> ('b, 'x, 'ev) prog" where
  "bnd m f w = (case m w of (Inl e, w') \<Rightarrow> (Inl e, w') | (Inr a, w') \<Rightarrow> f a w')"

text \<open>A pure computation that may raise.\<close>

definition lift :: "exn + 'a \<Rightarrow> ('a, 'x, 'ev) prog" where
  "lift r w = (r, w)"

text \<open>
  An effect that does not fail: printing, and a drawing call whose arguments are well formed
  whenever it is reached.
\<close>

definition emit :: "'ev \<Rightarrow> (unit, 'x, 'ev) prog" where
  "emit ev w = (Inr (), w\<lparr>trace := trace w @ [ev]\<rparr>)"

text \<open>A call of a library function \<open>f\<close>; \<open>mk\<close> builds the trace entry from the outcome.\<close>

definition call :: "(exn + 'a \<Rightarrow> 'ev) \<Rightarrow> ('x \<Rightarrow> (exn + 'a) \<times> 'x) \<Rightarrow> ('a, 'x, 'ev) prog" where
  "call mk f w = (case f (ext w) of (r, x') \<Rightarrow> (r, w\<lparr>ext := x', trace := trace w @ [mk r]\<rparr>))"

text \<open>
  \<open>for a in xs: body\<close>, where \<open>s\<close> holds the local variables the body updates. An exception
  in the body ends the loop.
\<close>

fun for_each :: "('a \<Rightarrow> 's \<Rightarrow> ('s, 'x, 'ev) prog) \<Rightarrow> 'a list \<Rightarrow> 's \<Rightarrow> ('s, 'x, 'ev) prog" where
  "for_each body [] s w = (Inr s, w)"
| "for_each body (a # as) s w =
     (case body a s w of (Inl e, w') \<Rightarrow> (Inl e, w') | (Inr s', w') \<Rightarrow> for_each body as s' w')"

section \<open>Values passed to the libraries\<close>

text \<open>One entry \<open>(angle, points, time)\<close> of a measurement plan.\<close>

type_synonym angle_time = "double \<times> int \<times> double"

text \<open>The keyword arguments of \<open>simulate_magnetic\<close>.\<close>

record sim_kwargs =
  scale :: double
  bkg :: double
  dq :: double
  pp :: bool
  pm :: bool
  mp :: bool
  mm :: bool

text \<open>Keyword arguments of a drawing call, each value as it is written in the source.\<close>

type_synonym kwargs = "(string \<times> string) list"

text \<open>
  The drawing calls of \<open>plot_reflectivity\<close>, with their arguments: \<open>plt.figure(figsize=[w,h])\<close>,
  \<open>fig.add_subplot(n)\<close>, \<open>ax.plot(x, y, ...)\<close>, \<open>ax.errorbar(x, y, yerr, ...)\<close>,
  \<open>ax.set_xlabel\<close>, \<open>ax.set_ylabel\<close>, \<open>ax.set_yscale\<close>, \<open>ax.set_xlim\<close>, \<open>ax.legend()\<close>
  and \<open>plt.show()\<close>.
\<close>

datatype 'f drawing =
    Draw_figure double double
  | Draw_subplot nat
  | Draw_plot "'f list" "'f list" kwargs
  | Draw_errorbar "'f list" "'f list" "'f list" kwargs
  | Draw_xlabel string kwargs
  | Draw_ylabel string kwargs
  | Draw_yscale string
  | Draw_xlim double double
  | Draw_legend
  | Draw_show

text \<open>
  Trace entries. \<open>'v\<close> is the type of references to library objects (samples, structures,
  models, data sets), \<open>'f\<close> the type of the numbers the libraries return (floats, including
  the infinities and NaN). A library call carries its arguments and its outcome; \<open>Draw\<close> is a
  drawing call of \<open>plot_reflectivity\<close> with its outcome.
\<close>

datatype ('v, 'f) event =
    Print string
  | SampleYIG_call "exn + 'v"
  | Set_pt_mag_value 'v double "exn + unit"
  | Using_conditions 'v double "exn + 'v"
  | Simulate_magnetic 'v "angle_time list" sim_kwargs "exn + 'v \<times> 'v"
  | Logl 'v "exn + 'f"
  | Underlayer_info 'v "angle_time list" double double "exn + 'f list list"
  | Reflectivity "'f list" 'v "exn + 'f list"
  | Figure double double
  | Add_subplot nat
  | Plot_times "double list" "'f list" kwargs
  | Set_xlabel string kwargs
  | Set_ylabel string kwargs
  | Legend
  | Draw "'f drawing" "exn + unit"



fun is_print :: "('v, 'f) event \<Rightarrow> bool" where
  "is_print (Print _) = True"
| "is_print _ = False"

section \<open>The \<open>hogben\<close> package\<close>

text \<open>
  Modelled from the spec: the \<open>hogben\<close> package (\<open>SampleYIG\<close>, \<open>simulate_magnetic\<close>,
  \<open>_logl\<close>, \<open>reflectivity\<close>) is not among the sources. The specification gives the
  signatures only and treats the functions as opaque, so each is a parameter: a function of
  its arguments and the external state that returns a value or raises, and the new external
  state. \<open>set_pt_mag_value s v\<close> is the assignment \<open>s.pt_mag.value = v\<close>,
  \<open>using_conditions s t\<close> is \<open>s.using_conditions(pt_thick=t)\<close>, \<open>minus_f\<close> is the subtraction
  of two returned floats and \<open>median\<close> is \<open>np.median\<close> on a list of them.
\<close>

record ('v, 'f, 'x) hogben =
  SampleYIG :: "'x \<Rightarrow> (exn + 'v) \<times> 'x"
  set_pt_mag_value :: "'v \<Rightarrow> double \<Rightarrow> 'x \<Rightarrow> (exn + unit) \<times> 'x"
  using_conditions :: "'v \<Rightarrow> double \<Rightarrow> 'x \<Rightarrow> (exn + 'v) \<times> 'x"
  simulate_magnetic :: "'v \<Rightarrow> angle_time list \<Rightarrow> sim_kwargs \<Rightarrow> 'x \<Rightarrow> (exn + 'v \<times> 'v) \<times> 'x"
  logl :: "'v \<Rightarrow> 'x \<Rightarrow> (exn + 'f) \<times> 'x"
  underlayer_info :: "'v \<Rightarrow> angle_time list \<Rightarrow> double \<Rightarrow> double \<Rightarrow> 'x \<Rightarrow> (exn + 'f list list) \<times> 'x"
  reflectivity :: "'f list \<Rightarrow> 'v \<Rightarrow> 'x \<Rightarrow> (exn + 'f list) \<times> 'x"
  minus_f :: "'f \<Rightarrow> 'f \<Rightarrow> 'f"
  median :: "'f list \<Rightarrow> 'f"

section \<open>Formatting\<close>

text \<open>\<open>'{0}'.format(n)\<close> for a non-negative integer: its decimal digits.\<close>

fun str_nat :: "nat \<Rightarrow> string" where
  "str_nat n = (if n < 10 then [''0123456789'' ! n]
                else str_nat (n div 10) @ [''0123456789'' ! (n mod 10)])"

declare str_nat.simps [simp del]

text \<open>\<open>'>>> {0}/{1}'.format(a, b)\<close>\<close>

definition progress_line :: "nat \<Rightarrow> nat \<Rightarrow> string" where
  "progress_line a b = ''>>> '' @ str_nat a @ ''/'' @ str_nat b"

section \<open>The magnetism notebook\<close>

subsection \<open>Fisher information against the YIG and platinum thicknesses\<close>

definition angle_times :: "angle_time list" where
  "angle_times = [(1 / 2, 100, 20), (1, 100, 40), (2, 100, 80)]"

definition yig_thick_range :: "double list" where
  "yig_thick_range = linspace 400 900 60"

definition pt_thick_range :: "double list" where
  "pt_thick_range = linspace (43 / 2) 30 25 @ linspace 30 100 25"

text \<open>\<open>g[0,0]\<close> on a two-dimensional array raises \<open>IndexError\<close> when an axis is empty.\<close>

fun getitem00 :: "'f list list \<Rightarrow> exn + 'f" where
  "getitem00 ((a # _) # _) = Inr a"
| "getitem00 _ = Inl (Exception ''IndexError'')"

text \<open>The body of the inner loop; the loop state is \<open>(x, y, infos)\<close>.\<close>

definition sweep_pt ::
  "('v, 'f, 'x) hogben \<Rightarrow> 'v \<Rightarrow> double \<Rightarrow> double \<Rightarrow> double list \<times> double list \<times> 'f list \<Rightarrow>
   (double list \<times> double list \<times> 'f list, 'x, ('v, 'f) event) prog" where
  "sweep_pt E sample yig_thick pt_thick s =
     (case s of (x, y, infos) \<Rightarrow>
       bnd (call (Underlayer_info sample angle_times yig_thick pt_thick)
                 (underlayer_info E sample angle_times yig_thick pt_thick)) (\<lambda>g.
       bnd (lift (getitem00 g)) (\<lambda>g00.
       ret (x @ [yig_thick], y @ [pt_thick], infos @ [g00]))))"

text \<open>The body of the outer loop, for the pair \<open>(i, yig_thick)\<close> of \<open>enumerate\<close>.\<close>

definition sweep_yig ::
  "('v, 'f, 'x) hogben \<Rightarrow> 'v \<Rightarrow> nat \<times> double \<Rightarrow> double list \<times> double list \<times> 'f list \<Rightarrow>
   (double list \<times> double list \<times> 'f list, 'x, ('v, 'f) event) prog" where
  "sweep_yig E sample iy s =
     (case iy of (i, yig_thick) \<Rightarrow>
       bnd (if i mod 5 = 0
            then emit (Print (progress_line (i * length pt_thick_range)
                                (length pt_thick_range * length yig_thick_range)))
            else ret ()) (\<lambda>_.
       for_each (sweep_pt E sample yig_thick) pt_thick_range s))"

definition fisher_sweep ::
  "('v, 'f, 'x) hogben \<Rightarrow> 'v \<Rightarrow> (double list \<times> double list \<times> 'f list, 'x, ('v, 'f) event) prog" where
  "fisher_sweep E sample = for_each (sweep_yig E sample) (enumerate 0 yig_thick_range) ([], [], [])"

subsection \<open>Log ratio of likelihoods against counting time\<close>

definition times :: "double list" where
  "times = linspace 40 4000 100"

definition angle_splits :: "angle_time list" where
  "angle_splits = [(1 / 2, 100, fdiv 1 7), (1, 100, fdiv 2 7), (2, 100, fdiv 4 7)]"

text \<open>\<open>[(angle, points, split*total_time) for angle, points, split in angle_splits]\<close>\<close>

definition plan_for :: "double \<Rightarrow> angle_time list" where
  "plan_for total_time =
     map (\<lambda>(angle, points, split). (angle, points, fmul split total_time)) angle_splits"

definition simulate_kwargs :: sim_kwargs where
  "simulate_kwargs = \<lparr>scale = 1, bkg = fl (5 / 10 ^ 7), dq = 2,
                       pp = True, pm = False, mp = False, mm = True\<rparr>"

definition pt_moment :: double where
  "pt_moment = fl (1638 / 100000)"

text \<open>The body of \<open>for _ in range(20)\<close>; the loop state is the list \<open>temp\<close>.\<close>

definition one_ratio ::
  "('v, 'f, 'x) hogben \<Rightarrow> double \<Rightarrow> double \<Rightarrow> nat \<Rightarrow> 'f list \<Rightarrow> ('f list, 'x, ('v, 'f) event) prog" where
  "one_ratio E pt_thick total_time _ temp =
     bnd (call SampleYIG_call (SampleYIG E)) (\<lambda>sample.
     bnd (call (Set_pt_mag_value sample pt_moment) (set_pt_mag_value E sample pt_moment)) (\<lambda>_.
     bnd (call (Using_conditions sample pt_thick) (using_conditions E sample pt_thick)) (\<lambda>structure.
     bnd (call (Simulate_magnetic structure (plan_for total_time) simulate_kwargs)
               (simulate_magnetic E structure (plan_for total_time) simulate_kwargs)) (\<lambda>(models, datasets).
     bnd (call (Logl models) (logl E models)) (\<lambda>logl_1.
     bnd (call (Set_pt_mag_value sample 0) (set_pt_mag_value E sample 0)) (\<lambda>_.
     bnd (call (Logl models) (logl E models)) (\<lambda>logl_2.
     ret (temp @ [minus_f E logl_1 logl_2]))))))))"

text \<open>The body of the loop over \<open>enumerate(times)\<close>; the loop state is the list \<open>ratios\<close>.\<close>

definition ratio_at ::
  "('v, 'f, 'x) hogben \<Rightarrow> double \<Rightarrow> nat \<times> double \<Rightarrow> 'f list \<Rightarrow> ('f list, 'x, ('v, 'f) event) prog" where
  "ratio_at E pt_thick it ratios =
     (case it of (i, total_time) \<Rightarrow>
       bnd (if i mod 20 = 0 then emit (Print (progress_line i (length times))) else ret ()) (\<lambda>_.
       bnd (for_each (one_ratio E pt_thick total_time) [0..<20] []) (\<lambda>temp.
       ret (ratios @ [median E temp]))))"

definition calc_log_ratios ::
  "('v, 'f, 'x) hogben \<Rightarrow> double \<Rightarrow> ('f list, 'x, ('v, 'f) event) prog" where
  "calc_log_ratios E pt_thick = for_each (ratio_at E pt_thick) (enumerate 0 times) []"

text \<open>
  The rest of the cell: the figure with one curve for each platinum thickness. Each \<open>ax.plot\<close>
  is reached only after \<open>calc_log_ratios\<close> returned, with \<open>1.5*times\<close> and a list of ratios of
  the same length.
\<close>

definition angstrom :: string where
  "angstrom = [CHR 0xC3, CHR 0x85]"

definition log_ratio_figure :: "('v, 'f, 'x) hogben \<Rightarrow> (unit, 'x, ('v, 'f) event) prog" where
  "log_ratio_figure E =
     bnd (emit (Figure 6 7)) (\<lambda>_.
     bnd (emit (Add_subplot 111)) (\<lambda>_.
     bnd (calc_log_ratios E 26) (\<lambda>ratios_26.
     bnd (emit (Plot_times (map (fmul (3 / 2)) times) ratios_26
                  [(''label'', ''26'' @ angstrom @ '' Pt Thickness'')])) (\<lambda>_.
     bnd (calc_log_ratios E 80) (\<lambda>ratios_80.
     bnd (emit (Plot_times (map (fmul (3 / 2)) times) ratios_80
                  [(''label'', ''80'' @ angstrom @ '' Pt Thickness'')])) (\<lambda>_.
     bnd (emit (Set_xlabel ''Counting Time (min.)'' [(''fontsize'', ''11''), (''weight'', ''bold'')])) (\<lambda>_.
     bnd (emit (Set_ylabel ''Log Ratio of Likelihoods'' [(''fontsize'', ''11''), (''weight'', ''bold'')])) (\<lambda>_.
     emit Legend))))))))"

section \<open>The simulation notebook\<close>








section \<open>Library calls behind a trace\<close>

text \<open>
  \<open>returned (f x) a\<close> is the external state after the library call \<open>f\<close>, made in state \<open>x\<close>,
  when that call returned \<open>a\<close>; it is \<open>None\<close> when the call raised or returned something else.
\<close>

definition returned :: "(exn + 'a) \<times> 'x \<Rightarrow> 'a \<Rightarrow> 'x option" where
  "returned rx a = (case rx of (r, x') \<Rightarrow> if r = Inr a then Some x' else None)"

text \<open>Steps made one after the other, each from the state the one before left.\<close>

fun thread :: "('r \<Rightarrow> 'x \<Rightarrow> 'x option) \<Rightarrow> 'r list \<Rightarrow> 'x \<Rightarrow> 'x option" where
  "thread step [] x = Some x"
| "thread step (r # rs) x = (case step r x of None \<Rightarrow> None | Some x1 \<Rightarrow> thread step rs x1)"

section \<open>What a successful run leaves in the trace\<close>

text \<open>
  The values one pass through the body of \<open>for _ in range(20)\<close> obtains from the library:
  the sample, the structure, the models and data sets, and the two log-likelihoods.
\<close>

record ('v, 'f) iteration =
  sample_of :: 'v
  structure_of :: 'v
  models_of :: 'v
  datasets_of :: 'v
  logl_1_of :: 'f
  logl_2_of :: 'f

text \<open>The library calls of one such pass, all returning, in order.\<close>

definition iteration_events :: "double \<Rightarrow> double \<Rightarrow> ('v, 'f) iteration \<Rightarrow> ('v, 'f) event list" where
  "iteration_events pt_thick total_time it =
     [SampleYIG_call (Inr (sample_of it)),
      Set_pt_mag_value (sample_of it) pt_moment (Inr ()),
      Using_conditions (sample_of it) pt_thick (Inr (structure_of it)),
      Simulate_magnetic (structure_of it) (plan_for total_time) simulate_kwargs
        (Inr (models_of it, datasets_of it)),
      Logl (models_of it) (Inr (logl_1_of it)),
      Set_pt_mag_value (sample_of it) 0 (Inr ()),
      Logl (models_of it) (Inr (logl_2_of it))]"

definition ratio_of :: "('v, 'f, 'x) hogben \<Rightarrow> ('v, 'f) iteration \<Rightarrow> 'f" where
  "ratio_of E it = minus_f E (logl_1_of it) (logl_2_of it)"

text \<open>
  The seven library calls of one pass through the body of \<open>for _ in range(20)\<close>, made in
  source order from the state \<open>x\<close>, each returning what \<open>it\<close> records: the result is the
  state after the last of them.
\<close>

definition iteration_run ::
  "('v, 'f, 'x) hogben \<Rightarrow> double \<Rightarrow> double \<Rightarrow> ('v, 'f) iteration \<Rightarrow> 'x \<Rightarrow> 'x option" where
  "iteration_run E pt_thick total_time it x =
     Option.bind (returned (SampleYIG E x) (sample_of it)) (\<lambda>x1.
     Option.bind (returned (set_pt_mag_value E (sample_of it) pt_moment x1) ()) (\<lambda>x2.
     Option.bind (returned (using_conditions E (sample_of it) pt_thick x2) (structure_of it)) (\<lambda>x3.
     Option.bind (returned (simulate_magnetic E (structure_of it) (plan_for total_time)
                              simulate_kwargs x3) (models_of it, datasets_of it)) (\<lambda>x4.
     Option.bind (returned (logl E (models_of it) x4) (logl_1_of it)) (\<lambda>x5.
     Option.bind (returned (set_pt_mag_value E (sample_of it) 0 x5) ()) (\<lambda>x6.
     returned (logl E (models_of it) x6) (logl_2_of it)))))))"

text \<open>The library calls of the pass for one counting time, and of all passes in turn.\<close>

definition pass_run ::
  "('v, 'f, 'x) hogben \<Rightarrow> double \<Rightarrow> double \<times> ('v, 'f) iteration list \<Rightarrow> 'x \<Rightarrow> 'x option" where
  "pass_run E pt_thick p = thread (iteration_run E pt_thick (fst p)) (snd p)"

definition calc_run ::
  "('v, 'f, 'x) hogben \<Rightarrow> double \<Rightarrow> ('v, 'f) iteration list list \<Rightarrow> 'x \<Rightarrow> 'x option" where
  "calc_run E pt_thick runs = thread (pass_run E pt_thick) (zip times runs)"

text \<open>
  The call \<open>sample.underlayer_info(angle_times, yig_thick, pt_thick)\<close> returning the matrix
  \<open>g\<close>, and a list of such calls made in turn.
\<close>

definition underlayer_step ::
  "('v, 'f, 'x) hogben \<Rightarrow> 'v \<Rightarrow> (double \<times> double) \<times> 'f list list \<Rightarrow> 'x \<Rightarrow> 'x option" where
  "underlayer_step E sample c x =
     returned (underlayer_info E sample angle_times (fst (fst c)) (snd (fst c)) x) (snd c)"

definition calls_run ::
  "('v, 'f, 'x) hogben \<Rightarrow> 'v \<Rightarrow> ((double \<times> double) \<times> 'f list list) list \<Rightarrow> 'x \<Rightarrow> 'x option" where
  "calls_run E sample cs = thread (underlayer_step E sample) cs"



text \<open>The progress line of time index \<open>i\<close>, when there is one.\<close>

definition progress_events :: "nat \<Rightarrow> ('v, 'f) event list" where
  "progress_events i = (if i mod 20 = 0 then [Print (progress_line i (length times))] else [])"

text \<open>What the pass for time index \<open>i\<close> leaves in the trace, given its 20 iterations.\<close>

definition time_events ::
  "double \<Rightarrow> nat \<times> double \<Rightarrow> ('v, 'f) iteration list \<Rightarrow> ('v, 'f) event list" where
  "time_events pt_thick it its =
     progress_events (fst it) @ concat (map (iteration_events pt_thick (snd it)) its)"

definition calc_events :: "double \<Rightarrow> ('v, 'f) iteration list list \<Rightarrow> ('v, 'f) event list" where
  "calc_events pt_thick runs =
     concat (map (\<lambda>(it, its). time_events pt_thick it its) (zip (enumerate 0 times) runs))"

text \<open>The progress line of YIG index \<open>i\<close> of the thickness sweep, when there is one.\<close>

definition sweep_progress :: "nat \<Rightarrow> ('v, 'f) event list" where
  "sweep_progress i =
     (if i mod 5 = 0
      then [Print (progress_line (i * length pt_thick_range)
                     (length pt_thick_range * length yig_thick_range))]
      else [])"

text \<open>
  What the pass for YIG index \<open>i\<close> leaves in the trace, given for each platinum thickness
  the matrix \<open>underlayer_info\<close> returned and its entry \<open>(0,0)\<close>.
\<close>

definition yig_events ::
  "'v \<Rightarrow> nat \<times> double \<Rightarrow> ('f list list \<times> 'f) list \<Rightarrow> ('v, 'f) event list" where
  "yig_events sample iy gs =
     sweep_progress (fst iy) @
     map (\<lambda>(pt_thick, g). Underlayer_info sample angle_times (snd iy) pt_thick (Inr (fst g)))
       (zip pt_thick_range gs)"

definition sweep_events :: "'v \<Rightarrow> ('f list list \<times> 'f) list list \<Rightarrow> ('v, 'f) event list" where
  "sweep_events sample rows =
     concat (map (\<lambda>(iy, gs). yig_events sample iy gs) (zip (enumerate 0 yig_thick_range) rows))"

text \<open>The thicknesses \<open>(yig_thick, pt_thick)\<close> of the \<open>underlayer_info\<close> calls of a trace.\<close>

fun underlayer_calls :: "('v, 'f) event list \<Rightarrow> (double \<times> double) list" where
  "underlayer_calls [] = []"
| "underlayer_calls (Underlayer_info _ _ yig_thick pt_thick _ # evs) =
     (yig_thick, pt_thick) # underlayer_calls evs"
| "underlayer_calls (_ # evs) = underlayer_calls evs"



text \<open>A program that returns from every world.\<close>

definition succeeds :: "('a, 'x, 'ev) prog \<Rightarrow> bool" where
  "succeeds m = (\<forall>w. \<exists>a w'. m w = (Inr a, w'))"

text \<open>A library that never raises.\<close>

definition returns :: "('x \<Rightarrow> (exn + 'a) \<times> 'x) \<Rightarrow> bool" where
  "returns f = (\<forall>x. \<exists>a x'. f x = (Inr a, x'))"

definition never_raises :: "('v, 'f, 'x) hogben \<Rightarrow> bool" where
  "never_raises E =
     (returns (SampleYIG E) \<and> (\<forall>s v. returns (set_pt_mag_value E s v))
      \<and> (\<forall>s t. returns (using_conditions E s t))
      \<and> (\<forall>st plan kw. returns (simulate_magnetic E st plan kw))
      \<and> (\<forall>m. returns (logl E m)))"

text \<open>
  A small library to run the notebook on: objects are numbered, the external state counts
  the calls made so far, the log-likelihood of a model is its number.
\<close>

definition toy :: "(nat, int, nat) hogben" where
  "toy = \<lparr>SampleYIG = (\<lambda>x. (Inr x, Suc x)),
          set_pt_mag_value = (\<lambda>s v x. (Inr (), Suc x)),
          using_conditions = (\<lambda>s t x. (Inr (s + 1), Suc x)),
          simulate_magnetic = (\<lambda>st plan kw x. (Inr (st + x, x), Suc x)),
          logl = (\<lambda>m x. (Inr (int m + int x), Suc x)),
          underlayer_info = (\<lambda>s plan yig pt x. (Inr [[int x]], Suc x)),
          reflectivity = (\<lambda>q m x. (Inr q, x)),
          minus_f = (\<lambda>a b. a - b),
          median = (\<lambda>xs. if xs = [] then 0 else sort xs ! (length xs div 2))\<rparr>"

text \<open>The same library with a log-likelihood that only reads the number of the model.\<close>

definition quiet_toy :: "(nat, int, nat) hogben" where
  "quiet_toy = toy\<lparr>logl := (\<lambda>m x. (Inr (int m), x))\<rparr>"






definition world0 :: "(nat, (nat, int) event) world" where
  "world0 = \<lparr>ext = 0, trace = []\<rparr>"

section \<open>Evaluating floats\<close>

lemma floor_rat_numeral_div: "\<lfloor>numeral a / numeral b :: rat\<rfloor> = numeral a div numeral b"
  using floor_divide_of_int_eq [of "numeral a" "numeral b", where ?'a = rat] by simp

lemma ceiling_rat_numeral_div:
  "\<lceil>numeral a / numeral b :: rat\<rceil> = - ((- numeral a) div numeral b)"
  using floor_divide_of_int_eq [of "- numeral a" "numeral b", where ?'a = rat]
  by (simp add: ceiling_def)

lemmas fl_core = fl_def round_at_def ilog2_def pow2_def round_half_even_def compute_bitlen
  floor_rat_numeral_div ceiling_rat_numeral_div

lemma linspace_points_0: "linspace_points start step 0 = []"
  by (simp add: linspace_points_def)

lemma linspace_points_Suc:
  "linspace_points start step (Suc n) =
     linspace_points start step n @ [fadd (fmul (of_nat n) step) start]"
  by (simp add: linspace_points_def)

lemmas linspace_unfold = linspace_def linspace_points_0 linspace_points_Suc eval_nat_numeral
  fsub_def fdiv_def fl_core

lemma times_eval:
  "times =
    [40, 80, 120, 160, 200, 240, 280, 320, 360, 400, 440, 480, 520, 560, 600, 640, 680, 720,
     760, 800, 840, 880, 920, 960, 1000, 1040, 1080, 1120, 1160, 1200, 1240, 1280, 1320, 1360,
     1400, 1440, 1480, 1520, 1560, 1600, 1640, 1680, 1720, 1760, 1800, 1840, 1880, 1920, 1960,
     2000, 2040, 2080, 2120, 2160, 2200, 2240, 2280, 2320, 2360, 2400, 2440, 2480, 2520, 2560,
     2600, 2640, 2680, 2720, 2760, 2800, 2840, 2880, 2920, 2960, 3000, 3040, 3080, 3120, 3160,
     3200, 3240, 3280, 3320, 3360, 3400, 3440, 3480, 3520, 3560, 3600, 3640, 3680, 3720, 3760,
     3800, 3840, 3880, 3920, 3960, 4000]"
  apply (simp add: times_def linspace_unfold)
  apply (simp add: fadd_def fmul_def fl_core)
  done

lemma yig_thick_range_eval:
  "yig_thick_range =
    [400, 7185960740176705 / 17592186044416, 3667523531293505 / 8796093022208,
     7484133384997315 / 17592186044416, 1908304926851905 / 4398046511104,
     3891153014908963 / 8796093022208, 3965696176114115 / 8796093022208,
     1010059834329817 / 2199023255552, 8229564997048841 / 17592186044416,
     4189325659729573 / 8796093022208, 8527737641869451 / 17592186044416,
     2169205991069939 / 4398046511104, 8825910286690061 / 17592186044416,
     4487498304550183 / 8796093022208, 570255183219417 / 1099511627776,
     579573078370061 / 1099511627776, 4711127788165641 / 8796093022208,
     4785670949370793 / 8796093022208, 2430107055287973 / 4398046511104,
     2467378635890549 / 4398046511104, 5009300432986251 / 8796093022208,
     1270960898547851 / 2199023255552, 1289596688849139 / 2199023255552,
     1308232479150427 / 2199023255552, 5307473077806861 / 8796093022208,
     2691008119506007 / 4398046511104, 2728279700108583 / 4398046511104,
     5531102561422319 / 8796093022208, 5605645722627471 / 8796093022208,
     355011805239539 / 549755813888, 359670752814861 / 549755813888,
     5829275206242929 / 8796093022208, 2951909183724041 / 4398046511104,
     2989180764326617 / 4398046511104, 3026452344929193 / 4398046511104,
     6127447851063539 / 8796093022208, 1550497753067173 / 2199023255552,
     1569133543368461 / 2199023255552, 6351077334678997 / 8796093022208,
     3212810247942075 / 4398046511104, 3250081828544651 / 4398046511104,
     3287353409147227 / 4398046511104, 6649249979499607 / 8796093022208,
     840474142588095 / 1099511627776, 849792037738739 / 1099511627776,
     859109932889383 / 1099511627776, 6947422624320217 / 8796093022208,
     3510982892762685 / 4398046511104, 3548254473365261 / 4398046511104,
     7171052107935675 / 8796093022208, 1811398817285207 / 2199023255552,
     1830034607586495 / 2199023255552, 1848670397887783 / 2199023255552,
     7469224752756285 / 8796093022208, 3771883956980719 / 4398046511104,
     3809155537583295 / 4398046511104, 3846427118185871 / 4398046511104,
     7767397397576895 / 8796093022208, 245060642461939 / 274877906944, 900]"
  apply (simp add: yig_thick_range_def linspace_unfold)
  apply (simp add: fadd_def fmul_def fl_core)
  done

lemma pt_thick_range_eval:
  "pt_thick_range =
    [43 / 2, 6151401053530795 / 281474976710656, 6251090107782485 / 281474976710656, 361 / 16,
     6450468216285867 / 281474976710656, 6550157270537557 / 281474976710656, 189 / 8,
     6749535379040939 / 281474976710656, 6849224433292629 / 281474976710656, 395 / 16,
     7048602541796011 / 281474976710656, 7148291596047701 / 281474976710656, 103 / 4,
     7347669704551083 / 281474976710656, 3723679379401387 / 140737488355328, 429 / 16,
     7646736867306155 / 281474976710656, 3873212960778923 / 140737488355328, 223 / 8,
     7945804030061227 / 281474976710656, 4022746542156459 / 140737488355328, 463 / 16,
     8244871192816299 / 281474976710656, 4172280123533995 / 140737488355328, 30, 30,
     4632608991696213 / 140737488355328, 5043093332732587 / 140737488355328, 155 / 4,
     5864062014805333 / 140737488355328, 3137273177920853 / 70368744177664, 95 / 2,
     7095515037914453 / 140737488355328, 3752999689475413 / 70368744177664, 225 / 4,
     8326968061023573 / 140737488355328, 4368726201029973 / 70368744177664, 65,
     2389605271033173 / 35184372088832, 4984452712584533 / 70368744177664, 295 / 4,
     2697468526810453 / 35184372088832, 5600179224139093 / 70368744177664, 165 / 2,
     3005331782587733 / 35184372088832, 6215905735693653 / 70368744177664, 365 / 4,
     3313195038365013 / 35184372088832, 6831632247248213 / 70368744177664, 100]"
  apply (simp add: pt_thick_range_def linspace_unfold)
  apply (simp add: fadd_def fmul_def fl_core)
  done

lemma splits_eval:
  "fdiv 1 7 = 2573485501354569 / 18014398509481984"
  "fdiv 2 7 = 2573485501354569 / 9007199254740992"
  "fdiv 4 7 = 2573485501354569 / 4503599627370496"
  by (simp_all add: fdiv_def fl_core)


lemma plan_for_eq:
  "plan_for t = [(1 / 2, 100, fmul (fdiv 1 7) t), (1, 100, fmul (fdiv 2 7) t), (2, 100, fmul (fdiv 4 7) t)]"
  by (simp add: plan_for_def angle_splits_def)

lemma splits_float_sum: "fadd (fadd (fdiv 1 7) (fdiv 2 7)) (fdiv 4 7) = 1"
  by (simp add: splits_eval) (simp add: fadd_def fl_core)

lemma plan_sum_bound:
  "list_all (\<lambda>t. \<bar>fmul (fdiv 1 7) t + fmul (fdiv 2 7) t + fmul (fdiv 4 7) t - t\<bar> \<le> t / 2 ^ 52) times"
  apply (simp only: times_eval list.pred_inject splits_eval)
  apply (simp add: fmul_def fl_core)
  done

lemma plan_float_sum_bound:
  "list_all (\<lambda>t. \<bar>fadd (fadd (fmul (fdiv 1 7) t) (fmul (fdiv 2 7) t)) (fmul (fdiv 4 7) t) - t\<bar> \<le> t / 2 ^ 52) times"
  apply (simp only: times_eval list.pred_inject splits_eval)
  apply (simp add: fmul_def fadd_def fl_core)
  done

lemma pt_thick_range_facts:
  "length pt_thick_range = 50" "count_list pt_thick_range 30 = 2"
  "pt_thick_range ! 24 = 30" "pt_thick_range ! 25 = 30"
  by (simp_all add: pt_thick_range_eval)

lemma yig_thick_range_facts: "length yig_thick_range = 60" "distinct yig_thick_range"
  by (simp_all add: yig_thick_range_eval)

lemma length_times: "length times = 100"
  by (simp add: times_eval)

section \<open>Running programs\<close>

lemma bnd_InrE:
  assumes "bnd m f w = (Inr b, w')"
  obtains a w1 where "m w = (Inr a, w1)" and "f a w1 = (Inr b, w')"
  using assms by (auto simp: bnd_def split: prod.splits sum.splits)

lemma call_Inr:
  assumes "call mk f w = (Inr a, w1)"
  shows "f (ext w) = (Inr a, ext w1) \<and> trace w1 = trace w @ [mk (Inr a)]"
  using assms by (auto simp: call_def split: prod.splits)

lemma one_ratio_Inr:
  assumes "one_ratio E pt_thick total_time j temp w = (Inr temp', w')"
  shows "\<exists>it x1 x2 x3 x4 x5 x6.
           SampleYIG E (ext w) = (Inr (sample_of it), x1)
         \<and> set_pt_mag_value E (sample_of it) pt_moment x1 = (Inr (), x2)
         \<and> using_conditions E (sample_of it) pt_thick x2 = (Inr (structure_of it), x3)
         \<and> simulate_magnetic E (structure_of it) (plan_for total_time) simulate_kwargs x3
              = (Inr (models_of it, datasets_of it), x4)
         \<and> logl E (models_of it) x4 = (Inr (logl_1_of it), x5)
         \<and> set_pt_mag_value E (sample_of it) 0 x5 = (Inr (), x6)
         \<and> logl E (models_of it) x6 = (Inr (logl_2_of it), ext w')
         \<and> trace w' = trace w @ iteration_events pt_thick total_time it
         \<and> temp' = temp @ [ratio_of E it]"
proof -
  from assms obtain s w1 where 1: "call SampleYIG_call (SampleYIG E) w = (Inr s, w1)"
    and r1: "bnd (call (Set_pt_mag_value s pt_moment) (set_pt_mag_value E s pt_moment)) (\<lambda>_.
     bnd (call (Using_conditions s pt_thick) (using_conditions E s pt_thick)) (\<lambda>structure.
     bnd (call (Simulate_magnetic structure (plan_for total_time) simulate_kwargs)
               (simulate_magnetic E structure (plan_for total_time) simulate_kwargs)) (\<lambda>(models, datasets).
     bnd (call (Logl models) (logl E models)) (\<lambda>logl_1.
     bnd (call (Set_pt_mag_value s 0) (set_pt_mag_value E s 0)) (\<lambda>_.
     bnd (call (Logl models) (logl E models)) (\<lambda>logl_2.
     ret (temp @ [minus_f E logl_1 logl_2]))))))) w1 = (Inr temp', w')"
    unfolding one_ratio_def by (erule bnd_InrE)
  from r1 obtain u w2 where 2: "call (Set_pt_mag_value s pt_moment) (set_pt_mag_value E s pt_moment) w1 = (Inr u, w2)"
    and r2: "bnd (call (Using_conditions s pt_thick) (using_conditions E s pt_thick)) (\<lambda>structure.
     bnd (call (Simulate_magnetic structure (plan_for total_time) simulate_kwargs)
               (simulate_magnetic E structure (plan_for total_time) simulate_kwargs)) (\<lambda>(models, datasets).
     bnd (call (Logl models) (logl E models)) (\<lambda>logl_1.
     bnd (call (Set_pt_mag_value s 0) (set_pt_mag_value E s 0)) (\<lambda>_.
     bnd (call (Logl models) (logl E models)) (\<lambda>logl_2.
     ret (temp @ [minus_f E logl_1 logl_2])))))) w2 = (Inr temp', w')"
    by (erule bnd_InrE)
  from r2 obtain st w3 where 3: "call (Using_conditions s pt_thick) (using_conditions E s pt_thick) w2 = (Inr st, w3)"
    and r3: "bnd (call (Simulate_magnetic st (plan_for total_time) simulate_kwargs)
               (simulate_magnetic E st (plan_for total_time) simulate_kwargs)) (\<lambda>(models, datasets).
     bnd (call (Logl models) (logl E models)) (\<lambda>logl_1.
     bnd (call (Set_pt_mag_value s 0) (set_pt_mag_value E s 0)) (\<lambda>_.
     bnd (call (Logl models) (logl E models)) (\<lambda>logl_2.
     ret (temp @ [minus_f E logl_1 logl_2]))))) w3 = (Inr temp', w')"
    by (erule bnd_InrE)
  from r3 obtain md w4 where 4: "call (Simulate_magnetic st (plan_for total_time) simulate_kwargs)
               (simulate_magnetic E st (plan_for total_time) simulate_kwargs) w3 = (Inr md, w4)"
    and r4: "(case md of (models, datasets) \<Rightarrow>
     bnd (call (Logl models) (logl E models)) (\<lambda>logl_1.
     bnd (call (Set_pt_mag_value s 0) (set_pt_mag_value E s 0)) (\<lambda>_.
     bnd (call (Logl models) (logl E models)) (\<lambda>logl_2.
     ret (temp @ [minus_f E logl_1 logl_2]))))) w4 = (Inr temp', w')"
    by (erule bnd_InrE)
  obtain m d where md: "md = (m, d)" by (cases md)
  from r4 md obtain l1 w5 where 5: "call (Logl m) (logl E m) w4 = (Inr l1, w5)"
    and r5: "bnd (call (Set_pt_mag_value s 0) (set_pt_mag_value E s 0)) (\<lambda>_.
     bnd (call (Logl m) (logl E m)) (\<lambda>logl_2.
     ret (temp @ [minus_f E l1 logl_2]))) w5 = (Inr temp', w')"
    by (auto elim: bnd_InrE)
  from r5 obtain u' w6 where 6: "call (Set_pt_mag_value s 0) (set_pt_mag_value E s 0) w5 = (Inr u', w6)"
    and r6: "bnd (call (Logl m) (logl E m)) (\<lambda>logl_2.
     ret (temp @ [minus_f E l1 logl_2])) w6 = (Inr temp', w')"
    by (erule bnd_InrE)
  from r6 obtain l2 w7 where 7: "call (Logl m) (logl E m) w6 = (Inr l2, w7)"
    and r7: "ret (temp @ [minus_f E l1 l2]) w7 = (Inr temp', w')"
    by (erule bnd_InrE)
  from r7 have w7: "w7 = w'" and temp': "temp' = temp @ [minus_f E l1 l2]"
    by (auto simp: ret_def)
  let ?it = "\<lparr>sample_of = s, structure_of = st, models_of = m, datasets_of = d,
              logl_1_of = l1, logl_2_of = l2\<rparr>"
  note c = call_Inr [OF 1] call_Inr [OF 2] call_Inr [OF 3] call_Inr [OF 4 [unfolded md]]
    call_Inr [OF 5] call_Inr [OF 6] call_Inr [OF 7 [unfolded w7]]
  have "SampleYIG E (ext w) = (Inr (sample_of ?it), ext w1)
         \<and> set_pt_mag_value E (sample_of ?it) pt_moment (ext w1) = (Inr (), ext w2)
         \<and> using_conditions E (sample_of ?it) pt_thick (ext w2) = (Inr (structure_of ?it), ext w3)
         \<and> simulate_magnetic E (structure_of ?it) (plan_for total_time) simulate_kwargs (ext w3)
              = (Inr (models_of ?it, datasets_of ?it), ext w4)
         \<and> logl E (models_of ?it) (ext w4) = (Inr (logl_1_of ?it), ext w5)
         \<and> set_pt_mag_value E (sample_of ?it) 0 (ext w5) = (Inr (), ext w6)
         \<and> logl E (models_of ?it) (ext w6) = (Inr (logl_2_of ?it), ext w')
         \<and> trace w' = trace w @ iteration_events pt_thick total_time ?it
         \<and> temp' = temp @ [ratio_of E ?it]"
    using c temp' by (simp add: iteration_events_def ratio_of_def)
  then show ?thesis by blast
qed


lemma returned_eq: "returned rx a = Some x' \<longleftrightarrow> rx = (Inr a, x')"
  by (cases rx) (simp add: returned_def)

lemma one_ratio_run:
  assumes "one_ratio E pt_thick total_time j temp w = (Inr temp', w')"
  shows "\<exists>it. iteration_run E pt_thick total_time it (ext w) = Some (ext w')
              \<and> trace w' = trace w @ iteration_events pt_thick total_time it
              \<and> temp' = temp @ [ratio_of E it]"
proof -
  from one_ratio_Inr [OF assms] obtain it x1 x2 x3 x4 x5 x6 where
    c: "SampleYIG E (ext w) = (Inr (sample_of it), x1)"
       "set_pt_mag_value E (sample_of it) pt_moment x1 = (Inr (), x2)"
       "using_conditions E (sample_of it) pt_thick x2 = (Inr (structure_of it), x3)"
       "simulate_magnetic E (structure_of it) (plan_for total_time) simulate_kwargs x3
              = (Inr (models_of it, datasets_of it), x4)"
       "logl E (models_of it) x4 = (Inr (logl_1_of it), x5)"
       "set_pt_mag_value E (sample_of it) 0 x5 = (Inr (), x6)"
       "logl E (models_of it) x6 = (Inr (logl_2_of it), ext w')"
    and t: "trace w' = trace w @ iteration_events pt_thick total_time it"
    and r: "temp' = temp @ [ratio_of E it]"
    by blast
  from c have "iteration_run E pt_thick total_time it (ext w) = Some (ext w')"
    by (simp add: iteration_run_def returned_def)
  with t r show ?thesis by blast
qed

section \<open>Loops\<close>

lemma thread_append:
  "thread step (rs @ rs') x = (case thread step rs x of None \<Rightarrow> None | Some x1 \<Rightarrow> thread step rs' x1)"
  by (induction rs arbitrary: x) (auto split: option.splits)

lemma thread_zip_snd:
  assumes "length xs = length rs"
  shows "thread (\<lambda>(a, r). f r) (zip xs rs) x = thread f rs x"
  using assms by (induction xs rs arbitrary: x rule: list_induct2) (auto split: option.splits)

lemma thread_enumerate:
  "thread (\<lambda>(a, r). f (snd a) r) (zip (enumerate n ts) rs) x = thread (\<lambda>(t, r). f t r) (zip ts rs) x"
proof (induction ts arbitrary: n rs x)
  case Nil
  show ?case by simp
next
  case (Cons t ts)
  then show ?case by (cases rs) (auto split: option.splits)
qed

lemma for_each_Inr:
  assumes step: "\<And>a s w s' w'. a \<in> set xs \<Longrightarrow> body a s w = (Inr s', w') \<Longrightarrow>
                   \<exists>r. R a r \<and> st a r (ext w) = Some (ext w')
                     \<and> trace w' = trace w @ ev a r \<and> s' = upd a r s"
    and run: "for_each body xs s w = (Inr s', w')"
  shows "\<exists>rs. list_all2 R xs rs \<and> thread (\<lambda>(a, r). st a r) (zip xs rs) (ext w) = Some (ext w')
              \<and> trace w' = trace w @ concat (map (\<lambda>(a, r). ev a r) (zip xs rs))
              \<and> s' = fold (\<lambda>(a, r). upd a r) (zip xs rs) s"
  using step run
proof (induction xs arbitrary: s w)
  case Nil
  then show ?case by simp
next
  case (Cons a as)
  from Cons.prems(2) obtain s1 w1 where b: "body a s w = (Inr s1, w1)"
    and rest: "for_each body as s1 w1 = (Inr s', w')"
    by (auto split: prod.splits sum.splits)
  from Cons.prems(1) [OF _ b] obtain r where r: "R a r" "st a r (ext w) = Some (ext w1)"
    "trace w1 = trace w @ ev a r" "s1 = upd a r s"
    by auto
  have "\<exists>rs. list_all2 R as rs \<and> thread (\<lambda>(a, r). st a r) (zip as rs) (ext w1) = Some (ext w')
              \<and> trace w' = trace w1 @ concat (map (\<lambda>(a, r). ev a r) (zip as rs))
              \<and> s' = fold (\<lambda>(a, r). upd a r) (zip as rs) s1"
    using Cons.prems(1) rest by (intro Cons.IH) auto
  then obtain rs where rs: "list_all2 R as rs"
    "thread (\<lambda>(a, r). st a r) (zip as rs) (ext w1) = Some (ext w')"
    "trace w' = trace w1 @ concat (map (\<lambda>(a, r). ev a r) (zip as rs))"
    "s' = fold (\<lambda>(a, r). upd a r) (zip as rs) s1" by blast
  have "list_all2 R (a # as) (r # rs) \<and>
        thread (\<lambda>(a, r). st a r) (zip (a # as) (r # rs)) (ext w) = Some (ext w') \<and>
        trace w' = trace w @ concat (map (\<lambda>(a, r). ev a r) (zip (a # as) (r # rs))) \<and>
        s' = fold (\<lambda>(a, r). upd a r) (zip (a # as) (r # rs)) s"
    using r rs by simp
  then show ?case by blast
qed

lemma for_each_returns:
  assumes "\<And>a s w. \<exists>s' w'. body a s w = (Inr s', w')"
  shows "\<exists>s' w'. for_each body xs s w = (Inr s', w')"
proof (induction xs arbitrary: s w)
  case Nil
  show ?case by simp
next
  case (Cons a as)
  from assms obtain s1 w1 where "body a s w = (Inr s1, w1)" by blast
  with Cons.IH [of s1 w1] show ?case by simp
qed

lemma fold_snoc:
  "fold (\<lambda>(a, r) s. s @ [g a r]) ps s = s @ map (\<lambda>(a, r). g a r) ps"
  by (induction ps arbitrary: s) auto

lemma map_zip_snd:
  assumes "length xs = length rs"
  shows "map (\<lambda>(a, r). g r) (zip xs rs) = map g rs"
proof -
  have "map (\<lambda>(a, r). g r) (zip xs rs) = map g (map snd (zip xs rs))"
    by (simp add: case_prod_unfold)
  also have "\<dots> = map g rs"
    using assms by simp
  finally show ?thesis .
qed

lemma ratio_at_Inr:
  assumes "ratio_at E pt_thick it ratios w = (Inr ratios', w')"
  shows "\<exists>its. length its = 20
              \<and> thread (iteration_run E pt_thick (snd it)) its (ext w) = Some (ext w')
              \<and> trace w' = trace w @ time_events pt_thick it its
              \<and> ratios' = ratios @ [median E (map (ratio_of E) its)]"
proof -
  obtain i total_time where it: "it = (i, total_time)" by (cases it)
  from assms it obtain u w1 temp w2 where
    p: "(if i mod 20 = 0 then emit (Print (progress_line i (length times))) else ret ()) w = (Inr u, w1)"
    and l: "for_each (one_ratio E pt_thick total_time) [0..<20] [] w1 = (Inr temp, w2)"
    and r: "ret (ratios @ [median E temp]) w2 = (Inr ratios', w')"
    unfolding ratio_at_def by (auto elim!: bnd_InrE)
  from p have t1: "trace w1 = trace w @ progress_events i"
    by (auto simp: progress_events_def emit_def ret_def split: if_splits)
  from p have e1: "ext w1 = ext w"
    by (auto simp: emit_def ret_def split: if_splits)
  have "\<exists>rs. list_all2 (\<lambda>_ _. True) [0..<20] rs
          \<and> thread (\<lambda>(a, r). iteration_run E pt_thick total_time r) (zip [0..<20] rs) (ext w1)
              = Some (ext w2)
          \<and> trace w2 = trace w1 @ concat (map (\<lambda>(a, r). iteration_events pt_thick total_time r) (zip [0..<20] rs))
          \<and> temp = fold (\<lambda>(a, r) s. s @ [ratio_of E r]) (zip [0..<20] rs) []"
  proof (rule for_each_Inr [OF _ l])
    fix a s w s' w'
    assume "one_ratio E pt_thick total_time a s w = (Inr s', w')"
    from one_ratio_run [OF this]
    show "\<exists>r. True \<and> iteration_run E pt_thick total_time r (ext w) = Some (ext w')
            \<and> trace w' = trace w @ iteration_events pt_thick total_time r \<and> s' = s @ [ratio_of E r]"
      by blast
  qed
  then obtain its where len: "length its = 20"
    and th: "thread (\<lambda>(a, r). iteration_run E pt_thick total_time r) (zip [0..<20] its) (ext w1)
              = Some (ext w2)"
    and t2: "trace w2 = trace w1 @ concat (map (\<lambda>(a, r). iteration_events pt_thick total_time r) (zip [0..<20] its))"
    and temp: "temp = fold (\<lambda>(a, r) s. s @ [ratio_of E r]) (zip [0..<20] its) []"
    by (auto dest: list_all2_lengthD)
  from temp have temp': "temp = map (ratio_of E) its"
    using map_zip_snd [of "[0..<20]" its "ratio_of E"] len by (simp add: fold_snoc)
  from t2 have t2': "trace w2 = trace w1 @ concat (map (iteration_events pt_thick total_time) its)"
    using map_zip_snd [of "[0..<20]" its "iteration_events pt_thick total_time"] len by simp
  from th have th': "thread (iteration_run E pt_thick total_time) its (ext w1) = Some (ext w2)"
    using thread_zip_snd [of "[0..<20]" its "iteration_run E pt_thick total_time"] len by simp
  from r have "w' = w2" "ratios' = ratios @ [median E temp]" by (auto simp: ret_def)
  with t1 t2' temp' len it th' e1 show ?thesis by (auto simp: time_events_def)
qed

lemma calc_log_ratios_Inr:
  assumes "calc_log_ratios E pt_thick w = (Inr ratios, w')"
  shows "\<exists>runs. length runs = length times \<and> (\<forall>its \<in> set runs. length its = 20)
           \<and> calc_run E pt_thick runs (ext w) = Some (ext w')
           \<and> trace w' = trace w @ calc_events pt_thick runs
           \<and> ratios = map (\<lambda>its. median E (map (ratio_of E) its)) runs"
proof -
  have "\<exists>rs. list_all2 (\<lambda>_ its. length its = 20) (enumerate 0 times) rs
          \<and> thread (\<lambda>(a, r). thread (iteration_run E pt_thick (snd a)) r)
               (zip (enumerate 0 times) rs) (ext w) = Some (ext w')
          \<and> trace w' = trace w @ concat (map (\<lambda>(a, r). time_events pt_thick a r) (zip (enumerate 0 times) rs))
          \<and> ratios = fold (\<lambda>(a, r) s. s @ [median E (map (ratio_of E) r)]) (zip (enumerate 0 times) rs) []"
  proof (rule for_each_Inr [OF _ assms [unfolded calc_log_ratios_def]])
    fix a s w s' w'
    assume "ratio_at E pt_thick a s w = (Inr s', w')"
    from ratio_at_Inr [OF this]
    show "\<exists>r. length r = 20 \<and> thread (iteration_run E pt_thick (snd a)) r (ext w) = Some (ext w')
               \<and> trace w' = trace w @ time_events pt_thick a r
               \<and> s' = s @ [median E (map (ratio_of E) r)]"
      by blast
  qed
  then obtain runs where a: "list_all2 (\<lambda>_ its. length its = 20) (enumerate 0 times) runs"
    and th: "thread (\<lambda>(a, r). thread (iteration_run E pt_thick (snd a)) r)
               (zip (enumerate 0 times) runs) (ext w) = Some (ext w')"
    and t: "trace w' = trace w @ calc_events pt_thick runs"
    and r: "ratios = fold (\<lambda>(a, r) s. s @ [median E (map (ratio_of E) r)]) (zip (enumerate 0 times) runs) []"
    unfolding calc_events_def by blast
  from a have len: "length runs = length times" by (auto dest: list_all2_lengthD)
  from a have all: "\<forall>its \<in> set runs. length its = 20"
    by (auto simp: list_all2_conv_all_nth in_set_conv_nth)
  have "map (\<lambda>(a, r). median E (map (ratio_of E) r)) (zip (enumerate 0 times) runs)
        = map (\<lambda>its. median E (map (ratio_of E) its)) runs"
    using len by (intro map_zip_snd) simp
  with r have "ratios = map (\<lambda>its. median E (map (ratio_of E) its)) runs"
    by (simp add: fold_snoc)
  moreover have "(\<lambda>(t, r). thread (iteration_run E pt_thick t) r) = pass_run E pt_thick"
    by (rule ext) (simp add: pass_run_def case_prod_unfold)
  with th have "calc_run E pt_thick runs (ext w) = Some (ext w')"
    using thread_enumerate [of "\<lambda>t. thread (iteration_run E pt_thick t)" 0 times runs "ext w"]
    by (simp add: calc_run_def)
  ultimately show ?thesis using len all t by blast
qed


section \<open>The measurement plan of a counting time\<close>

text \<open>
  C3, as stated: for every \<open>total_time\<close> of \<open>times\<close> the three per-angle times of the plan
  sum to \<open>total_time\<close>. This fails in the floating-point arithmetic of the code: for the first
  entry, \<open>40\<close>, the three times are the doubles nearest to \<open>40/7\<close>, \<open>80/7\<close> and \<open>160/7\<close>, and
  neither their exact sum nor their sum in double arithmetic is \<open>40\<close>.
\<close>

theorem plan_for_sum_counterexample:
  "40 \<in> set times
   \<and> plan_for 40 = [(1 / 2, 100, 3216856876693211 / 562949953421312),
                     (1, 100, 3216856876693211 / 281474976710656),
                     (2, 100, 3216856876693211 / 140737488355328)]
   \<and> sum_list (map (snd \<circ> snd) (plan_for 40)) = 22517998136852477 / 562949953421312
   \<and> sum_list (map (snd \<circ> snd) (plan_for 40)) \<noteq> 40
   \<and> fadd (fadd (fmul (fdiv 1 7) 40) (fmul (fdiv 2 7) 40)) (fmul (fdiv 4 7) 40)
       = 5629499534213119 / 140737488355328
   \<and> fadd (fadd (fmul (fdiv 1 7) 40) (fmul (fdiv 2 7) 40)) (fmul (fdiv 4 7) 40) \<noteq> 40"
  apply (simp add: plan_for_eq splits_eval times_eval)
  apply (simp add: fmul_def fadd_def fl_core)
  done

text \<open>
  C3, amended: for every \<open>total_time\<close> of \<open>times\<close> the plan keeps the angles \<open>0.5, 1.0, 2.0\<close>
  and the point counts \<open>100\<close> of \<open>angle_splits\<close>; each per-angle time is the double product
  \<open>split*total_time\<close>, the splits being the doubles \<open>1/7\<close>, \<open>2/7\<close>, \<open>4/7\<close>, whose sum in double
  arithmetic is \<open>1\<close>; and the per-angle times sum to \<open>total_time\<close> up to rounding: the sum,
  exact or in double arithmetic, differs from \<open>total_time\<close> by at most \<open>total_time / 2^52\<close>.
\<close>

theorem plan_for_times:
  assumes "total_time \<in> set times"
  shows "map (\<lambda>(angle, points, time). (angle, points)) (plan_for total_time)
           = map (\<lambda>(angle, points, split). (angle, points)) angle_splits
       \<and> map (\<lambda>(angle, points, split). (angle, points)) angle_splits
           = [(1 / 2, 100), (1, 100), (2, 100)]
       \<and> map (\<lambda>(angle, points, time). time) (plan_for total_time)
           = map (\<lambda>(angle, points, split). fmul split total_time) angle_splits
       \<and> map (\<lambda>(angle, points, split). split) angle_splits = [fdiv 1 7, fdiv 2 7, fdiv 4 7]
       \<and> fadd (fadd (fdiv 1 7) (fdiv 2 7)) (fdiv 4 7) = 1
       \<and> \<bar>sum_list (map (\<lambda>(angle, points, time). time) (plan_for total_time)) - total_time\<bar>
           \<le> total_time / 2 ^ 52
       \<and> \<bar>fadd (fadd (fmul (fdiv 1 7) total_time) (fmul (fdiv 2 7) total_time))
                (fmul (fdiv 4 7) total_time) - total_time\<bar>
           \<le> total_time / 2 ^ 52"
proof -
  have exact: "\<bar>fmul (fdiv 1 7) total_time + fmul (fdiv 2 7) total_time
                 + fmul (fdiv 4 7) total_time - total_time\<bar> \<le> total_time / 2 ^ 52"
    using plan_sum_bound assms by (simp add: list_all_iff)
  have float: "\<bar>fadd (fadd (fmul (fdiv 1 7) total_time) (fmul (fdiv 2 7) total_time))
                 (fmul (fdiv 4 7) total_time) - total_time\<bar> \<le> total_time / 2 ^ 52"
    using plan_float_sum_bound assms by (simp add: list_all_iff)
  have sum: "sum_list (map (\<lambda>(angle, points, time). time) (plan_for total_time))
      = fmul (fdiv 1 7) total_time + fmul (fdiv 2 7) total_time + fmul (fdiv 4 7) total_time"
    by (simp add: plan_for_eq)
  show ?thesis
    unfolding sum using exact float splits_float_sum
    by (simp add: plan_for_eq angle_splits_def)
qed

theorem plan_for_times_witness:
  "40 \<in> set times
   \<and> map (\<lambda>(angle, points, time). (angle, points)) (plan_for 40) = [(1 / 2, 100), (1, 100), (2, 100)]
   \<and> \<bar>sum_list (map (\<lambda>(angle, points, time). time) (plan_for 40)) - 40\<bar> \<le> 40 / 2 ^ 52"
proof -
  have h: "40 \<in> set times" by (simp add: times_eval)
  from plan_for_times [OF h] have
    a: "map (\<lambda>(angle, points, time). (angle, points)) (plan_for 40)
          = map (\<lambda>(angle, points, split). (angle, points)) angle_splits" and
    b: "map (\<lambda>(angle, points, split). (angle, points)) angle_splits
          = [(1 / 2, 100), (1, 100), (2, 100)]" and
    c: "\<bar>sum_list (map (\<lambda>(angle, points, time). time) (plan_for 40)) - 40\<bar> \<le> 40 / 2 ^ 52"
    by blast+
  from a b have ab: "map (\<lambda>(angle, points, time). (angle, points)) (plan_for 40)
          = [(1 / 2, 100), (1, 100), (2, 100)]"
    by (rule trans)
  show ?thesis using h ab c by blast
qed

section \<open>Programs that return\<close>

lemma succeeds_ret: "succeeds (ret a)"
  by (simp add: succeeds_def ret_def)

lemma succeeds_emit: "succeeds (emit ev)"
  by (simp add: succeeds_def emit_def)

lemma succeeds_call:
  fixes f :: "'x \<Rightarrow> (exn + 'a) \<times> 'x" and mk :: "exn + 'a \<Rightarrow> 'ev"
  assumes "returns f"
  shows "succeeds (call mk f)"
  unfolding succeeds_def
proof
  fix w :: "('x, 'ev) world"
  from assms obtain a x' where "f (ext w) = (Inr a, x')" unfolding returns_def by blast
  then show "\<exists>a w'. call mk f w = (Inr a, w')" by (simp add: call_def)
qed

lemma succeeds_bnd:
  assumes "succeeds m" and "\<And>a. succeeds (f a)"
  shows "succeeds (bnd m f)"
  unfolding succeeds_def
proof
  fix w
  from assms(1) obtain a w1 where m: "m w = (Inr a, w1)" unfolding succeeds_def by blast
  from assms(2) [of a] obtain b w2 where "f a w1 = (Inr b, w2)" unfolding succeeds_def by blast
  with m show "\<exists>b w'. bnd m f w = (Inr b, w')" by (simp add: bnd_def)
qed

lemma succeeds_for_each:
  assumes "\<And>a s. succeeds (body a s)"
  shows "succeeds (for_each body xs s)"
  unfolding succeeds_def using for_each_returns [of body xs s] assms
  by (simp add: succeeds_def)

lemma succeeds_one_ratio:
  assumes "never_raises E"
  shows "succeeds (one_ratio E pt_thick total_time j temp)"
  unfolding one_ratio_def using assms
  by (intro succeeds_bnd succeeds_call succeeds_ret) (auto simp: never_raises_def split_def intro!: succeeds_bnd succeeds_call succeeds_ret)

lemma succeeds_ratio_at:
  assumes "never_raises E"
  shows "succeeds (ratio_at E pt_thick it ratios)"
  unfolding ratio_at_def using assms
  by (auto simp: split_def intro!: succeeds_bnd succeeds_for_each succeeds_one_ratio succeeds_emit succeeds_ret)

lemma succeeds_calc_log_ratios:
  assumes "never_raises E"
  shows "succeeds (calc_log_ratios E pt_thick)"
  unfolding calc_log_ratios_def using assms
  by (intro succeeds_for_each succeeds_ratio_at)

lemma never_raises_toy: "never_raises toy"
  by (simp add: never_raises_def returns_def toy_def)

lemma never_raises_quiet_toy: "never_raises quiet_toy"
  by (simp add: never_raises_def returns_def toy_def quiet_toy_def)

section \<open>The log ratios of \<open>calc_log_ratios\<close>\<close>



text \<open>
  C2: an inner iteration that completes makes exactly these library calls, in this order: it
  constructs a fresh \<open>SampleYIG()\<close>, sets its moment to \<open>0.01638\<close>, builds the structure, calls
  \<open>simulate_magnetic\<close> once, calls \<open>_logl\<close> on the models it returned, sets the moment of the
  same sample to \<open>0\<close>, and calls \<open>_logl\<close> again on the very same models. So if \<open>_logl\<close> only
  reads (it leaves the external state as it is) and what it reads for these models is not
  touched by assigning the moment of this sample (the models do not alias the sample's
  parameter), the second log-likelihood equals the first.
\<close>

theorem one_ratio_same_models:
  assumes "one_ratio E pt_thick total_time j temp w = (Inr temp', w')"
  shows "\<exists>s st m d l1 l2 x1 x2 x3 x4 x5 x6.
           SampleYIG E (ext w) = (Inr s, x1)
         \<and> set_pt_mag_value E s pt_moment x1 = (Inr (), x2)
         \<and> using_conditions E s pt_thick x2 = (Inr st, x3)
         \<and> simulate_magnetic E st (plan_for total_time) simulate_kwargs x3 = (Inr (m, d), x4)
         \<and> logl E m x4 = (Inr l1, x5)
         \<and> set_pt_mag_value E s 0 x5 = (Inr (), x6)
         \<and> logl E m x6 = (Inr l2, ext w')
         \<and> trace w' = trace w @
              [SampleYIG_call (Inr s),
               Set_pt_mag_value s pt_moment (Inr ()),
               Using_conditions s pt_thick (Inr st),
               Simulate_magnetic st (plan_for total_time) simulate_kwargs (Inr (m, d)),
               Logl m (Inr l1),
               Set_pt_mag_value s 0 (Inr ()),
               Logl m (Inr l2)]
         \<and> temp' = temp @ [minus_f E l1 l2]
         \<and> ((\<forall>x. snd (logl E m x) = x)
              \<and> (\<forall>x v. fst (logl E m (snd (set_pt_mag_value E s v x))) = fst (logl E m x))
            \<longrightarrow> l2 = l1)
         \<and> pt_moment = 2360606780682519 / 144115188075855872"
proof -
  from one_ratio_Inr [OF assms] obtain it x1 x2 x3 x4 x5 x6 where
    c: "SampleYIG E (ext w) = (Inr (sample_of it), x1)"
       "set_pt_mag_value E (sample_of it) pt_moment x1 = (Inr (), x2)"
       "using_conditions E (sample_of it) pt_thick x2 = (Inr (structure_of it), x3)"
       "simulate_magnetic E (structure_of it) (plan_for total_time) simulate_kwargs x3
              = (Inr (models_of it, datasets_of it), x4)"
       "logl E (models_of it) x4 = (Inr (logl_1_of it), x5)"
       "set_pt_mag_value E (sample_of it) 0 x5 = (Inr (), x6)"
       "logl E (models_of it) x6 = (Inr (logl_2_of it), ext w')"
    and t: "trace w' = trace w @ iteration_events pt_thick total_time it"
    and r: "temp' = temp @ [ratio_of E it]"
    by blast
  have same: "logl_2_of it = logl_1_of it"
    if a: "\<forall>x. snd (logl E (models_of it) x) = x"
      and b: "\<forall>x v. fst (logl E (models_of it) (snd (set_pt_mag_value E (sample_of it) v x)))
                 = fst (logl E (models_of it) x)"
  proof -
    from a c(5) have "x5 = x4" by (metis snd_conv)
    with c(6) have "snd (set_pt_mag_value E (sample_of it) 0 x4) = x6" by simp
    with b have "fst (logl E (models_of it) x6) = fst (logl E (models_of it) x4)" by metis
    with c(5,7) show ?thesis by simp
  qed
  have m: "pt_moment = 2360606780682519 / 144115188075855872"
    by (simp add: pt_moment_def fl_core)
  show ?thesis
    apply (rule exI [of _ "sample_of it"], rule exI [of _ "structure_of it"])
    apply (rule exI [of _ "models_of it"], rule exI [of _ "datasets_of it"])
    apply (rule exI [of _ "logl_1_of it"], rule exI [of _ "logl_2_of it"])
    apply (rule exI [of _ x1], rule exI [of _ x2], rule exI [of _ x3])
    apply (rule exI [of _ x4], rule exI [of _ x5], rule exI [of _ x6])
    using c t r same m by (simp add: iteration_events_def ratio_of_def)
qed

theorem one_ratio_same_models_witness:
  "\<exists>w'. one_ratio quiet_toy 26 40 0 [] world0 = (Inr [0], w')"
proof -
  from succeeds_one_ratio [OF never_raises_quiet_toy, of 26 40 0 "[]"]
  obtain temp' w' where run: "one_ratio quiet_toy 26 40 0 [] world0 = (Inr temp', w')"
    unfolding succeeds_def by blast
  from one_ratio_same_models [OF run] obtain s m l1 l2 where
    "temp' = [] @ [minus_f quiet_toy l1 l2]"
    "(\<forall>x. snd (logl quiet_toy m x) = x)
        \<and> (\<forall>x v. fst (logl quiet_toy m (snd (set_pt_mag_value quiet_toy s v x))) = fst (logl quiet_toy m x))
      \<longrightarrow> l2 = l1"
    by blast
  then have "temp' = [0]" by (simp add: quiet_toy_def toy_def)
  with run show ?thesis by blast
qed


section \<open>The thickness sweep\<close>

lemma list_all2_right:
  assumes "list_all2 (\<lambda>_ r. P r) xs rs"
  shows "\<forall>r \<in> set rs. P r"
  using assms by (induction rule: list_all2_induct) auto

lemma sweep_pt_Inr:
  assumes "sweep_pt E sample yig_thick pt_thick s w = (Inr s', w')"
  shows "\<exists>g. getitem00 (fst g) = Inr (snd g)
           \<and> underlayer_step E sample ((yig_thick, pt_thick), fst g) (ext w) = Some (ext w')
           \<and> trace w' = trace w @ [Underlayer_info sample angle_times yig_thick pt_thick (Inr (fst g))]
           \<and> s' = (case s of (x, y, infos) \<Rightarrow> (x @ [yig_thick], y @ [pt_thick], infos @ [snd g]))"
proof -
  obtain x y infos where s: "s = (x, y, infos)" by (cases s)
  from assms s obtain g w1 a w2 where
    c: "call (Underlayer_info sample angle_times yig_thick pt_thick)
             (underlayer_info E sample angle_times yig_thick pt_thick) w = (Inr g, w1)"
    and l: "lift (getitem00 g) w1 = (Inr a, w2)"
    and r: "ret (x @ [yig_thick], y @ [pt_thick], infos @ [a]) w2 = (Inr s', w')"
    unfolding sweep_pt_def by (auto elim!: bnd_InrE)
  from l have "getitem00 g = Inr a" "w2 = w1" by (auto simp: lift_def)
  moreover from r have "w' = w2" "s' = (x @ [yig_thick], y @ [pt_thick], infos @ [a])"
    by (auto simp: ret_def)
  ultimately have "getitem00 (fst (g, a)) = Inr (snd (g, a))
           \<and> underlayer_step E sample ((yig_thick, pt_thick), fst (g, a)) (ext w) = Some (ext w')
           \<and> trace w' = trace w @ [Underlayer_info sample angle_times yig_thick pt_thick (Inr (fst (g, a)))]
           \<and> s' = (case s of (x, y, infos) \<Rightarrow> (x @ [yig_thick], y @ [pt_thick], infos @ [snd (g, a)]))"
    using call_Inr [OF c] s by (simp add: underlayer_step_def returned_def)
  then show ?thesis by blast
qed

lemma fold_row:
  assumes "length gs = length ps"
  shows "fold (\<lambda>(pt, g) (x, y, infos). (x @ [yg], y @ [pt], infos @ [snd g])) (zip ps gs) (x, y, infos)
         = (x @ replicate (length ps) yg, y @ ps, infos @ map snd gs)"
  using assms
proof (induction gs ps arbitrary: x y infos rule: list_induct2)
  case Nil
  show ?case by simp
next
  case (Cons g gs p ps)
  show ?case by (simp add: Cons.IH replicate_app_Cons_same)
qed

lemma thread_row:
  assumes "length gs = length ps"
  shows "thread (\<lambda>(pt, g). underlayer_step E sample ((yg, pt), fst g)) (zip ps gs) x
         = calls_run E sample (zip (map (Pair yg) ps) (map fst gs)) x"
  using assms unfolding calls_run_def
  by (induction gs ps arbitrary: x rule: list_induct2) (auto split: option.splits)

lemma sweep_yig_Inr:
  assumes "sweep_yig E sample iy s w = (Inr s', w')"
  shows "\<exists>gs. length gs = length pt_thick_range \<and> (\<forall>g \<in> set gs. getitem00 (fst g) = Inr (snd g))
           \<and> calls_run E sample (zip (map (Pair (snd iy)) pt_thick_range) (map fst gs)) (ext w)
               = Some (ext w')
           \<and> trace w' = trace w @ yig_events sample iy gs
           \<and> s' = (case s of (x, y, infos) \<Rightarrow>
                     (x @ replicate (length pt_thick_range) (snd iy), y @ pt_thick_range,
                      infos @ map snd gs))"
proof -
  obtain i yig_thick where iy: "iy = (i, yig_thick)" by (cases iy)
  obtain x y infos where s: "s = (x, y, infos)" by (cases s)
  from assms iy obtain u w1 where
    p: "(if i mod 5 = 0
            then emit (Print (progress_line (i * length pt_thick_range)
                                (length pt_thick_range * length yig_thick_range)))
            else ret ()) w = (Inr u, w1)"
    and l: "for_each (sweep_pt E sample yig_thick) pt_thick_range s w1 = (Inr s', w')"
    unfolding sweep_yig_def by (auto elim!: bnd_InrE)
  from p have t1: "trace w1 = trace w @ sweep_progress i"
    by (auto simp: sweep_progress_def emit_def ret_def split: if_splits)
  from p have e1: "ext w1 = ext w"
    by (auto simp: emit_def ret_def split: if_splits)
  have "\<exists>rs. list_all2 (\<lambda>_ g. getitem00 (fst g) = Inr (snd g)) pt_thick_range rs
          \<and> thread (\<lambda>(pt, g). underlayer_step E sample ((yig_thick, pt), fst g))
               (zip pt_thick_range rs) (ext w1) = Some (ext w')
          \<and> trace w' = trace w1 @ concat (map (\<lambda>(pt, g).
                [Underlayer_info sample angle_times yig_thick pt (Inr (fst g))]) (zip pt_thick_range rs))
          \<and> s' = fold (\<lambda>(pt, g) (x, y, infos). (x @ [yig_thick], y @ [pt], infos @ [snd g]))
                    (zip pt_thick_range rs) s"
  proof (rule for_each_Inr [OF _ l])
    fix a s w s' w'
    assume "sweep_pt E sample yig_thick a s w = (Inr s', w')"
    from sweep_pt_Inr [OF this]
    show "\<exists>r. getitem00 (fst r) = Inr (snd r)
            \<and> underlayer_step E sample ((yig_thick, a), fst r) (ext w) = Some (ext w')
            \<and> trace w' = trace w @ [Underlayer_info sample angle_times yig_thick a (Inr (fst r))]
            \<and> s' = (case s of (x, y, infos) \<Rightarrow> (x @ [yig_thick], y @ [a], infos @ [snd r]))"
      by blast
  qed
  then obtain gs where a: "list_all2 (\<lambda>_ g. getitem00 (fst g) = Inr (snd g)) pt_thick_range gs"
    and th: "thread (\<lambda>(pt, g). underlayer_step E sample ((yig_thick, pt), fst g))
               (zip pt_thick_range gs) (ext w1) = Some (ext w')"
    and t2: "trace w' = trace w1 @ concat (map (\<lambda>(pt, g).
                [Underlayer_info sample angle_times yig_thick pt (Inr (fst g))]) (zip pt_thick_range gs))"
    and s': "s' = fold (\<lambda>(pt, g) (x, y, infos). (x @ [yig_thick], y @ [pt], infos @ [snd g]))
                    (zip pt_thick_range gs) s"
    by blast
  from a have len: "length gs = length pt_thick_range" by (auto dest: list_all2_lengthD)
  from a have all: "\<forall>g \<in> set gs. getitem00 (fst g) = Inr (snd g)"
    by (rule list_all2_right)
  have c: "concat (map (\<lambda>(pt, g). [Underlayer_info sample angle_times yig_thick pt (Inr (fst g))])
             (zip pt_thick_range gs))
       = map (\<lambda>(pt, g). Underlayer_info sample angle_times yig_thick pt (Inr (fst g)))
             (zip pt_thick_range gs)"
    by (induction "zip pt_thick_range gs") (auto simp: concat_map_singleton case_prod_unfold)
  from t1 t2 c have "trace w' = trace w @ yig_events sample iy gs"
    by (simp add: yig_events_def iy)
  moreover from s' s have "s' = (x @ replicate (length pt_thick_range) yig_thick, y @ pt_thick_range,
                      infos @ map snd gs)"
    by (simp add: fold_row [OF len])
  moreover from th have "calls_run E sample (zip (map (Pair yig_thick) pt_thick_range) (map fst gs))
      (ext w) = Some (ext w')"
    using thread_row [OF len, of E sample yig_thick "ext w1"] e1 by simp
  ultimately show ?thesis using len all s iy by auto
qed


lemma fold_rows:
  assumes "length rows = length iys"
  shows "fold (\<lambda>(iy, gs) (x, y, infos). (x @ replicate n (snd iy), y @ ps, infos @ map snd gs))
           (zip iys rows) (x, y, infos)
         = (x @ concat (map (\<lambda>iy. replicate n (snd iy)) iys), y @ concat (map (\<lambda>_. ps) iys),
            infos @ map snd (concat rows))"
  using assms
proof (induction rows iys arbitrary: x y infos rule: list_induct2)
  case Nil
  show ?case by simp
next
  case (Cons gs rows iy iys)
  show ?case by (simp add: Cons.IH)
qed

lemma map_fst_product: "map fst (List.product xs ys) = concat (map (replicate (length ys)) xs)"
  by (induction xs) (simp_all add: comp_def map_replicate_const)

lemma map_snd_product: "map snd (List.product xs ys) = concat (map (\<lambda>_. ys) xs)"
  by (induction xs) (simp_all add: comp_def)

lemma length_product: "length (List.product xs ys) = length xs * length ys"
  by (induction xs) simp_all

lemma filter_yig_events:
  fixes sample :: 'v and gs :: "('f list list \<times> 'f) list"
  shows "filter (\<lambda>ev. \<not> is_print ev) (yig_events sample iy gs)
   = map (\<lambda>(pt_thick, g). Underlayer_info sample angle_times (snd iy) pt_thick (Inr (fst g)))
       (zip pt_thick_range gs)"
proof -
  have "filter (\<lambda>ev. \<not> is_print ev) (sweep_progress (fst iy) :: ('v, 'f) event list) = []"
    by (simp add: sweep_progress_def)
  moreover have "filter (\<lambda>ev. \<not> is_print ev)
       (map (\<lambda>(pt_thick, g). Underlayer_info sample angle_times (snd iy) pt_thick (Inr (fst g))) ps)
     = map (\<lambda>(pt_thick, g). Underlayer_info sample angle_times (snd iy) pt_thick (Inr (fst g))) ps"
    for ps :: "(double \<times> ('f list list \<times> 'f)) list"
    by (induction ps) auto
  ultimately show ?thesis by (simp add: yig_events_def)
qed

lemma filter_rows_events:
  assumes "list_all2 (\<lambda>_ gs. length gs = length pt_thick_range) iys rows"
  shows "filter (\<lambda>ev. \<not> is_print ev)
           (concat (map (\<lambda>(iy, gs). yig_events sample iy gs) (zip iys rows)))
         = map (\<lambda>((yig_thick, pt_thick), g).
                  Underlayer_info sample angle_times yig_thick pt_thick (Inr (fst g)))
             (zip (List.product (map snd iys) pt_thick_range) (concat rows))"
  using assms
proof (induction rule: list_all2_induct)
  case Nil
  show ?case by simp
next
  case (Cons iy iys gs rows)
  have "map (\<lambda>((yig_thick, pt_thick), g).
                  Underlayer_info sample angle_times yig_thick pt_thick (Inr (fst g)))
          (zip (map (Pair (snd iy)) pt_thick_range) gs)
        = map (\<lambda>(pt_thick, g). Underlayer_info sample angle_times (snd iy) pt_thick (Inr (fst g)))
            (zip pt_thick_range gs)"
    by (simp add: zip_map1 case_prod_unfold)
  with Cons show ?case
    by (simp add: filter_yig_events)
qed

lemma thread_rows:
  assumes "list_all2 (\<lambda>_ gs. length gs = length ps) iys rows"
  shows "thread (\<lambda>(a, r). calls_run E sample (zip (map (Pair (snd a)) ps) (map fst r)))
           (zip iys rows) x
         = calls_run E sample (zip (List.product (map snd iys) ps) (map fst (concat rows))) x"
  using assms
proof (induction arbitrary: x rule: list_all2_induct)
  case Nil
  show ?case by (simp add: calls_run_def)
next
  case (Cons iy iys gs rows)
  have "calls_run E sample (zip (map (Pair (snd iy)) ps @ List.product (map snd iys) ps)
                              (map fst gs @ map fst (concat rows))) x
        = (case calls_run E sample (zip (map (Pair (snd iy)) ps) (map fst gs)) x of
             None \<Rightarrow> None
           | Some x1 \<Rightarrow> calls_run E sample
                         (zip (List.product (map snd iys) ps) (map fst (concat rows))) x1)"
    using Cons.hyps(1) unfolding calls_run_def by (simp add: thread_append)
  with Cons.IH show ?case by (simp split: option.splits)
qed

lemma fisher_sweep_Inr:
  fixes E :: "('v, 'f, 'x) hogben"
  assumes "fisher_sweep E sample w = (Inr s', w')"
  shows "\<exists>rows. length rows = length yig_thick_range
           \<and> (\<forall>gs \<in> set rows. length gs = length pt_thick_range
                 \<and> (\<forall>g \<in> set gs. getitem00 (fst g) = Inr (snd g)))
           \<and> calls_run E sample (zip (List.product yig_thick_range pt_thick_range)
                                    (map fst (concat rows))) (ext w) = Some (ext w')
           \<and> trace w' = trace w @ sweep_events sample rows
           \<and> s' = (map fst (List.product yig_thick_range pt_thick_range),
                    map snd (List.product yig_thick_range pt_thick_range),
                    map snd (concat rows))"
proof -
  let ?R = "\<lambda>gs. length gs = length pt_thick_range \<and> (\<forall>g \<in> set gs. getitem00 (fst g) = Inr (snd g))"
  let ?upd = "\<lambda>(iy :: nat \<times> double) (gs :: ('f list list \<times> 'f) list) (x, y, infos).
     (x @ replicate (length pt_thick_range) (snd iy), y @ pt_thick_range, infos @ map snd gs)"
  have "\<exists>rs. list_all2 (\<lambda>_. ?R) (enumerate 0 yig_thick_range) rs
          \<and> thread (\<lambda>(a, r). calls_run E sample (zip (map (Pair (snd a)) pt_thick_range) (map fst r)))
               (zip (enumerate 0 yig_thick_range) rs) (ext w) = Some (ext w')
          \<and> trace w' = trace w @ concat (map (\<lambda>(a, r). yig_events sample a r)
                                       (zip (enumerate 0 yig_thick_range) rs))
          \<and> s' = fold (\<lambda>(a, r). ?upd a r) (zip (enumerate 0 yig_thick_range) rs) ([], [], [])"
  proof (rule for_each_Inr [OF _ assms [unfolded fisher_sweep_def]])
    fix a s w s' w'
    assume "sweep_yig E sample a s w = (Inr s', w')"
    from sweep_yig_Inr [OF this]
    show "\<exists>r. ?R r
            \<and> calls_run E sample (zip (map (Pair (snd a)) pt_thick_range) (map fst r)) (ext w)
                = Some (ext w')
            \<and> trace w' = trace w @ yig_events sample a r \<and> s' = ?upd a r s"
      by (auto simp: case_prod_unfold)
  qed
  then obtain rows where a: "list_all2 (\<lambda>_. ?R) (enumerate 0 yig_thick_range) rows"
    and th: "thread (\<lambda>(a, r). calls_run E sample (zip (map (Pair (snd a)) pt_thick_range) (map fst r)))
               (zip (enumerate 0 yig_thick_range) rows) (ext w) = Some (ext w')"
    and t: "trace w' = trace w @ sweep_events sample rows"
    and s': "s' = fold (\<lambda>(a, r). ?upd a r) (zip (enumerate 0 yig_thick_range) rows) ([], [], [])"
    unfolding sweep_events_def by blast
  from a have len: "length rows = length yig_thick_range" by (auto dest: list_all2_lengthD)
  from a have all: "\<forall>gs \<in> set rows. ?R gs" by (rule list_all2_right)
  have len': "length rows = length (enumerate 0 yig_thick_range)" using len by simp
  have "concat (map (\<lambda>iy. replicate (length pt_thick_range) (snd iy)) (enumerate 0 yig_thick_range))
        = concat (map (replicate (length pt_thick_range)) (map snd (enumerate 0 yig_thick_range)))"
    by (simp add: comp_def del: map_snd_enumerate)
  then have x: "concat (map (\<lambda>iy. replicate (length pt_thick_range) (snd iy)) (enumerate 0 yig_thick_range))
        = map fst (List.product yig_thick_range pt_thick_range)"
    by (simp add: map_fst_product)
  have "concat (map (\<lambda>_. pt_thick_range) (enumerate 0 yig_thick_range))
        = concat (map (\<lambda>_. pt_thick_range) (map snd (enumerate 0 yig_thick_range)))"
    by (simp add: comp_def del: map_snd_enumerate)
  then have y: "concat (map (\<lambda>_. pt_thick_range) (enumerate 0 yig_thick_range))
        = map snd (List.product yig_thick_range pt_thick_range)"
    by (simp add: map_snd_product)
  from s' have "s' = (map fst (List.product yig_thick_range pt_thick_range),
                    map snd (List.product yig_thick_range pt_thick_range),
                    map snd (concat rows))"
    using fold_rows [OF len', of "length pt_thick_range" pt_thick_range "[]" "[]" "[]"] x y
    by simp
  moreover have "list_all2 (\<lambda>_ gs. length gs = length pt_thick_range) (enumerate 0 yig_thick_range) rows"
    using a by (rule list_all2_mono) simp
  from thread_rows [OF this, of E sample "ext w"] th
  have "calls_run E sample (zip (List.product yig_thick_range pt_thick_range)
                                    (map fst (concat rows))) (ext w) = Some (ext w')"
    by simp
  ultimately show ?thesis using len all t by blast
qed


lemma length_concat_rows:
  assumes "\<forall>gs \<in> set rows. length gs = m"
  shows "length (concat rows) = length rows * m"
  using assms by (induction rows) simp_all

lemma list_all2_lengths:
  assumes "length rows = length iys" and "\<forall>gs \<in> set rows. P gs"
  shows "list_all2 (\<lambda>_. P) iys rows"
  using assms by (induction rows iys rule: list_induct2) simp_all

lemma count_list_Pair_same: "count_list (map (Pair a) ys) (a, b) = count_list ys b"
  by (induction ys) simp_all

lemma count_list_Pair_other: "x \<noteq> a \<Longrightarrow> count_list (map (Pair x) ys) (a, b) = 0"
  by (induction ys) simp_all

lemma count_list_Pair:
  "count_list (map (Pair x) ys) (a, b) = (if x = a then count_list ys b else 0)"
  by (simp add: count_list_Pair_same count_list_Pair_other)

lemma count_list_product:
  "count_list (List.product xs ys) (a, b) = count_list xs a * count_list ys b"
  by (induction xs) (auto simp: count_list_Pair)

lemma count_list_distinct:
  assumes "distinct xs" and "a \<in> set xs"
  shows "count_list xs a = 1"
  using assms by (induction xs) auto

lemma underlayer_calls_filter:
  "underlayer_calls (filter (\<lambda>ev. \<not> is_print ev) evs) = underlayer_calls evs"
proof (induction evs)
  case Nil
  show ?case by simp
next
  case (Cons ev evs)
  then show ?case by (cases ev) simp_all
qed

lemma underlayer_calls_map:
  assumes "length gs = length ps"
  shows "underlayer_calls (map (\<lambda>((yig_thick, pt_thick), g).
            Underlayer_info sample plan yig_thick pt_thick (Inr g)) (zip ps gs)) = ps"
  using assms by (induction gs ps rule: list_induct2) auto


lemma succeeds_sweep_pt_toy: "succeeds (sweep_pt toy sample yig_thick pt_thick s)"
  by (cases s) (simp add: succeeds_def sweep_pt_def bnd_def call_def lift_def ret_def toy_def)

lemma succeeds_fisher_sweep_toy: "succeeds (fisher_sweep toy sample)"
  unfolding fisher_sweep_def
proof (rule succeeds_for_each)
  fix a :: "nat \<times> double" and s :: "double list \<times> double list \<times> int list"
  show "succeeds (sweep_yig toy sample a s)"
    unfolding sweep_yig_def
    by (cases a) (auto intro!: succeeds_bnd succeeds_for_each succeeds_sweep_pt_toy succeeds_emit succeeds_ret)
qed


lemma length_filter_zip:
  assumes "length as = length ps"
  shows "length (filter (\<lambda>(p, a). p = v) (zip ps as)) = count_list ps v"
  using assms by (induction as ps rule: list_induct2) auto

text \<open>
  C10: the platinum grid is \<open>np.linspace(21.5, 30, 25)\<close> followed by
  \<open>np.linspace(30, 100, 25)\<close>; it has 50 entries and the value \<open>30\<close> occurs exactly twice, at
  indices 24 and 25. So for every YIG thickness of the grid a completed sweep has called
  \<open>underlayer_info\<close> with that thickness and \<open>pt_thick = 30\<close> twice, and has recorded the pair
  twice in \<open>x\<close> and \<open>y\<close>. \<open>infos\<close> has one entry for each recorded pair, two of them beside
  this pair, and each entry is entry \<open>(0,0)\<close> of the matrix that the call for its pair
  returned: the calls for the pairs of \<open>x\<close> and \<open>y\<close>, made in turn, return these matrices.
\<close>

theorem pt_thick_30_twice:
  fixes E :: "('v, 'f, 'x) hogben"
  assumes "fisher_sweep E sample w = (Inr (x, y, infos), w')"
    and "yig_thick \<in> set yig_thick_range"
  shows "pt_thick_range = linspace (43 / 2) 30 25 @ linspace 30 100 25
       \<and> length pt_thick_range = 50 \<and> count_list pt_thick_range 30 = 2
       \<and> pt_thick_range ! 24 = 30 \<and> pt_thick_range ! 25 = 30
       \<and> (\<exists>evs gs. trace w' = trace w @ evs
             \<and> count_list (underlayer_calls evs) (yig_thick, 30) = 2
             \<and> length gs = length (zip x y)
             \<and> calls_run E sample (zip (zip x y) gs) (ext w) = Some (ext w')
             \<and> map getitem00 gs = map Inr infos)
       \<and> count_list (zip x y) (yig_thick, 30) = 2
       \<and> length infos = length (zip x y)
       \<and> length (filter (\<lambda>(p, a). p = (yig_thick, 30)) (zip (zip x y) infos)) = 2"
proof -
  from fisher_sweep_Inr [OF assms(1)] obtain rows :: "('f list list \<times> 'f) list list" where
    len: "length rows = length yig_thick_range"
    and all: "\<forall>gs \<in> set rows. length gs = length pt_thick_range
                 \<and> (\<forall>g \<in> set gs. getitem00 (fst g) = Inr (snd g))"
    and cr: "calls_run E sample (zip (List.product yig_thick_range pt_thick_range)
                                    (map fst (concat rows))) (ext w) = Some (ext w')"
    and t: "trace w' = trace w @ sweep_events sample rows"
    and x: "x = map fst (List.product yig_thick_range pt_thick_range)"
    and y: "y = map snd (List.product yig_thick_range pt_thick_range)"
    and infos: "infos = map snd (concat rows)"
    by blast
  from all have "\<forall>gs \<in> set rows. length gs = length pt_thick_range" by blast
  from length_concat_rows [OF this] len
  have n: "length (concat rows) = length (List.product yig_thick_range pt_thick_range)"
    by (simp add: length_product)
  have a2: "list_all2 (\<lambda>_ gs. length gs = length pt_thick_range) (enumerate 0 yig_thick_range) rows"
    using len all by (intro list_all2_lengths) auto
  have f1: "filter (\<lambda>ev. \<not> is_print ev) (sweep_events sample rows)
        = map (\<lambda>((yig_thick, pt_thick), g).
                  Underlayer_info sample angle_times yig_thick pt_thick (Inr (fst g)))
             (zip (List.product yig_thick_range pt_thick_range) (concat rows))"
    using filter_rows_events [OF a2, of sample] by (simp add: sweep_events_def)
  have f2: "map (\<lambda>((yig_thick, pt_thick), g).
                  Underlayer_info sample angle_times yig_thick pt_thick (Inr (fst g)))
             (zip (List.product yig_thick_range pt_thick_range) (concat rows))
      = map (\<lambda>((yig_thick, pt_thick), g).
                  Underlayer_info sample angle_times yig_thick pt_thick (Inr g))
             (zip (List.product yig_thick_range pt_thick_range) (map fst (concat rows)))"
    by (simp add: zip_map2 case_prod_unfold)
  have "underlayer_calls (sweep_events sample rows)
        = underlayer_calls (filter (\<lambda>ev. \<not> is_print ev) (sweep_events sample rows))"
    by (simp add: underlayer_calls_filter)
  also have "\<dots> = underlayer_calls (map (\<lambda>((yig_thick, pt_thick), g).
                  Underlayer_info sample angle_times yig_thick pt_thick (Inr g))
             (zip (List.product yig_thick_range pt_thick_range) (map fst (concat rows))))"
    by (simp only: f1 f2)
  also have "\<dots> = List.product yig_thick_range pt_thick_range"
    using n by (intro underlayer_calls_map) simp
  finally have calls: "underlayer_calls (sweep_events sample rows)
        = List.product yig_thick_range pt_thick_range" .
  have c: "count_list (List.product yig_thick_range pt_thick_range) (yig_thick, 30) = 2"
    using count_list_distinct [OF yig_thick_range_facts(2) assms(2)]
    by (simp add: count_list_product pt_thick_range_facts)
  have z: "zip x y = List.product yig_thick_range pt_thick_range"
    by (simp add: x y zip_map_fst_snd)
  from all have "\<forall>g \<in> set (concat rows). getitem00 (fst g) = Inr (snd g)" by auto
  then have g: "map getitem00 (map fst (concat rows)) = map Inr infos"
    by (simp add: infos)
  have "\<exists>evs gs. trace w' = trace w @ evs
             \<and> count_list (underlayer_calls evs) (yig_thick, 30) = 2
             \<and> length gs = length (zip x y)
             \<and> calls_run E sample (zip (zip x y) gs) (ext w) = Some (ext w')
             \<and> map getitem00 gs = map Inr infos"
    using t calls c n z cr g
    by (intro exI [of _ "sweep_events sample rows"] exI [of _ "map fst (concat rows)"]) simp
  moreover have l: "length infos = length (zip x y)"
    using n z infos by simp
  moreover have "length (filter (\<lambda>(p, a). p = (yig_thick, 30)) (zip (zip x y) infos)) = 2"
    using length_filter_zip [OF l, of "(yig_thick, 30)"] c z by simp
  ultimately show ?thesis
    using c z pt_thick_range_facts by (simp add: pt_thick_range_def)
qed

theorem pt_thick_30_twice_witness:
  "400 \<in> set yig_thick_range
   \<and> (\<exists>x y infos w'. fisher_sweep toy 0 world0 = (Inr (x, y, infos), w')
         \<and> count_list (zip x y) (400, 30) = 2
         \<and> length (filter (\<lambda>(p, a). p = (400, 30)) (zip (zip x y) infos)) = 2)"
proof -
  have h: "400 \<in> set yig_thick_range" by (simp add: yig_thick_range_eval)
  from succeeds_fisher_sweep_toy [of 0] obtain s w' where "fisher_sweep toy 0 world0 = (Inr s, w')"
    unfolding succeeds_def by blast
  then obtain x y infos where run: "fisher_sweep toy 0 world0 = (Inr (x, y, infos), w')"
    by (cases s) auto
  from pt_thick_30_twice [OF run h] have "count_list (zip x y) (400, 30) = 2"
    "length (filter (\<lambda>(p, a). p = (400, 30)) (zip (zip x y) infos)) = 2"
    by blast+
  with run h show ?thesis by blast
qed


section \<open>Progress lines\<close>

lemma concat_passes:
  assumes "length rs = length ts"
  shows "concat (map (\<lambda>(it, r). P (fst it) @ F (snd it) r) (zip (enumerate n ts) rs))
         = concat (map (\<lambda>(i, c). P i @ c) (enumerate n (map (\<lambda>(t, r). F t r) (zip ts rs))))"
  using assms by (induction rs ts arbitrary: n rule: list_induct2) simp_all

lemma filter_passes:
  assumes "\<forall>c \<in> set cs. \<forall>ev \<in> set c. \<not> Q ev" and "\<And>i. \<forall>ev \<in> set (P i). Q ev"
  shows "filter Q (concat (map (\<lambda>(i, c). P i @ c) (enumerate n cs)))
         = concat (map P [n..<n + length cs])"
  using assms(1)
proof (induction cs arbitrary: n)
  case Nil
  show ?case by simp
next
  case (Cons c cs)
  have 1: "filter Q (P n) = P n" using assms(2) [of n] by (simp add: filter_id_conv)
  have 2: "filter Q c = []" using Cons.prems by (simp add: filter_empty_conv)
  have 3: "filter Q (concat (map (\<lambda>(i, c). P i @ c) (enumerate (Suc n) cs)))
           = concat (map P [Suc n..<Suc n + length cs])"
    using Cons.prems by (intro Cons.IH) simp
  have 4: "[n..<n + length (c # cs)] = n # [Suc n..<Suc n + length cs]"
    by (simp add: upt_conv_Cons del: upt_Suc)
  show ?case unfolding 4 using 1 2 3 by (simp del: upt_Suc)
qed

lemma iteration_events_no_print: "\<forall>ev \<in> set (iteration_events pt_thick total_time it). \<not> is_print ev"
  by (simp add: iteration_events_def)

lemma iteration_events_not_Nil: "iteration_events pt_thick total_time it \<noteq> []"
  by (simp add: iteration_events_def)

lemma progress_events_print: "\<forall>ev \<in> set (progress_events i). is_print ev"
  by (simp add: progress_events_def)

lemma sweep_progress_print: "\<forall>ev \<in> set (sweep_progress i). is_print ev"
  by (simp add: sweep_progress_def)

lemma calc_progress_lines:
  "concat (map progress_events [0..<100])
   = (map Print [''>>> 0/100'', ''>>> 20/100'', ''>>> 40/100'', ''>>> 60/100'', ''>>> 80/100'']
        :: ('v, 'f) event list)"
  by (simp add: progress_events_def length_times upt_rec progress_line_def str_nat.simps)

lemma sweep_progress_lines:
  "concat (map sweep_progress [0..<60])
   = (map Print [''>>> 0/3000'', ''>>> 250/3000'', ''>>> 500/3000'', ''>>> 750/3000'',
                 ''>>> 1000/3000'', ''>>> 1250/3000'', ''>>> 1500/3000'', ''>>> 1750/3000'',
                 ''>>> 2000/3000'', ''>>> 2250/3000'', ''>>> 2500/3000'', ''>>> 2750/3000'']
        :: ('v, 'f) event list)"
  by (simp add: sweep_progress_def yig_thick_range_facts pt_thick_range_facts upt_rec
      progress_line_def str_nat.simps)

text \<open>
  C8: both loops run their passes one after the other and print a progress line at fixed
  periods. In a completed \<open>calc_log_ratios\<close> the trace is, for each time index \<open>i\<close> in turn,
  the line \<open>>>> i/len(times)\<close> exactly when \<open>i % 20 == 0\<close>, followed by the library calls of the
  20 iterations for \<open>times[i]\<close>, none of which prints; the lines printed are those for
  \<open>i = 0, 20, 40, 60, 80\<close>. In a completed thickness sweep the trace is, for each YIG index \<open>i\<close>
  in turn, the line \<open>>>> i*len(pt_thick_range)/n\<close> exactly when \<open>i % 5 == 0\<close>, followed by the
  50 \<open>underlayer_info\<close> calls for \<open>yig_thick_range[i]\<close>; the lines printed are those for
  \<open>i = 0, 5, ..., 55\<close>.
\<close>

theorem progress_prints:
  fixes E :: "('v, 'f, 'x) hogben" and E' :: "('v, 'f, 'x) hogben"
  assumes "calc_log_ratios E pt_thick w = (Inr ratios, w')"
    and "fisher_sweep E' sample v = (Inr s, v')"
  shows "(\<exists>passes. length passes = length times
            \<and> (\<forall>i < length times. \<exists>its. length its = 20
                  \<and> passes ! i = concat (map (iteration_events pt_thick (times ! i)) its))
            \<and> (\<forall>c \<in> set passes. c \<noteq> [] \<and> (\<forall>ev \<in> set c. \<not> is_print ev))
            \<and> trace w' = trace w @ concat (map (\<lambda>(i, c).
                  (if i mod 20 = 0 then [Print (progress_line i (length times))] else []) @ c)
                  (enumerate 0 passes))
            \<and> filter is_print (drop (length (trace w)) (trace w'))
                = map Print [''>>> 0/100'', ''>>> 20/100'', ''>>> 40/100'', ''>>> 60/100'',
                             ''>>> 80/100''])
       \<and> (\<exists>passes. length passes = length yig_thick_range
            \<and> (\<forall>i < length yig_thick_range. \<exists>gs. length gs = length pt_thick_range
                  \<and> passes ! i = map (\<lambda>(pt_thick, g).
                       Underlayer_info sample angle_times (yig_thick_range ! i) pt_thick (Inr g))
                       (zip pt_thick_range gs))
            \<and> (\<forall>c \<in> set passes. c \<noteq> [] \<and> (\<forall>ev \<in> set c. \<not> is_print ev))
            \<and> trace v' = trace v @ concat (map (\<lambda>(i, c).
                  (if i mod 5 = 0
                   then [Print (progress_line (i * length pt_thick_range)
                                  (length pt_thick_range * length yig_thick_range))]
                   else []) @ c)
                  (enumerate 0 passes))
            \<and> filter is_print (drop (length (trace v)) (trace v'))
                = map Print [''>>> 0/3000'', ''>>> 250/3000'', ''>>> 500/3000'', ''>>> 750/3000'',
                    ''>>> 1000/3000'', ''>>> 1250/3000'', ''>>> 1500/3000'', ''>>> 1750/3000'',
                    ''>>> 2000/3000'', ''>>> 2250/3000'', ''>>> 2500/3000'', ''>>> 2750/3000''])"
proof (rule conjI)
  from calc_log_ratios_Inr [OF assms(1)] obtain runs where
    len: "length runs = length times" and all: "\<forall>its \<in> set runs. length its = 20"
    and t: "trace w' = trace w @ calc_events pt_thick runs"
    by blast
  let ?F = "\<lambda>t its. concat (map (iteration_events pt_thick t) its) :: ('v, 'f) event list"
  let ?passes = "map (\<lambda>(t, its). ?F t its) (zip times runs)"
  have l: "length ?passes = length times" using len by simp
  have nth: "\<forall>i < length times. \<exists>its. length its = 20
                  \<and> ?passes ! i = concat (map (iteration_events pt_thick (times ! i)) its)"
  proof (intro allI impI)
    fix i assume i: "i < length times"
    with len all have "length (runs ! i) = 20" by simp
    moreover from i len have "?passes ! i = ?F (times ! i) (runs ! i)" by simp
    ultimately show "\<exists>its. length its = 20
                  \<and> ?passes ! i = concat (map (iteration_events pt_thick (times ! i)) its)"
      by blast
  qed
  have np: "\<forall>c \<in> set ?passes. c \<noteq> [] \<and> (\<forall>ev \<in> set c. \<not> is_print ev)"
  proof
    fix c assume "c \<in> set ?passes"
    then obtain i where i: "i < length times" and c: "c = ?passes ! i"
      using l by (metis in_set_conv_nth)
    from nth i c obtain its where its: "length its = 20"
      "c = concat (map (iteration_events pt_thick (times ! i)) its)" by auto
    from its(1) obtain a as where "its = a # as" by (cases its) auto
    with its(2) have "c \<noteq> []" by (simp add: iteration_events_not_Nil)
    moreover from its(2) have "\<forall>ev \<in> set c. \<not> is_print ev"
      using iteration_events_no_print by auto
    ultimately show "c \<noteq> [] \<and> (\<forall>ev \<in> set c. \<not> is_print ev)" by blast
  qed
  have ce: "calc_events pt_thick runs
        = concat (map (\<lambda>(i, c). progress_events i @ c) (enumerate 0 ?passes))"
    unfolding calc_events_def time_events_def
    using concat_passes [OF len, of progress_events ?F 0] by simp
  have "filter is_print (concat (map (\<lambda>(i, c). progress_events i @ c) (enumerate 0 ?passes)))
        = concat (map progress_events [0..<0 + length ?passes])"
  proof (rule filter_passes)
    show "\<forall>c \<in> set ?passes. \<forall>ev \<in> set c. \<not> is_print ev" using np by blast
    show "\<forall>ev \<in> set (progress_events i). is_print ev" for i by (rule progress_events_print)
  qed
  then have f: "filter is_print (calc_events pt_thick runs) = concat (map progress_events [0..<100])"
    unfolding l length_times ce by simp
  have "trace w' = trace w @ concat (map (\<lambda>(i, c).
                  (if i mod 20 = 0 then [Print (progress_line i (length times))] else []) @ c)
                  (enumerate 0 ?passes))"
    using t ce by (simp add: progress_events_def)
  moreover have "filter is_print (drop (length (trace w)) (trace w'))
                = map Print [''>>> 0/100'', ''>>> 20/100'', ''>>> 40/100'', ''>>> 60/100'',
                             ''>>> 80/100'']"
    using t f calc_progress_lines by simp
  ultimately show "\<exists>passes. length passes = length times
            \<and> (\<forall>i < length times. \<exists>its. length its = 20
                  \<and> passes ! i = concat (map (iteration_events pt_thick (times ! i)) its))
            \<and> (\<forall>c \<in> set passes. c \<noteq> [] \<and> (\<forall>ev \<in> set c. \<not> is_print ev))
            \<and> trace w' = trace w @ concat (map (\<lambda>(i, c).
                  (if i mod 20 = 0 then [Print (progress_line i (length times))] else []) @ c)
                  (enumerate 0 passes))
            \<and> filter is_print (drop (length (trace w)) (trace w'))
                = map Print [''>>> 0/100'', ''>>> 20/100'', ''>>> 40/100'', ''>>> 60/100'',
                             ''>>> 80/100'']"
    using l nth np by (intro exI [of _ ?passes]) blast
next
  from fisher_sweep_Inr [OF assms(2)] obtain rows :: "('f list list \<times> 'f) list list" where
    len: "length rows = length yig_thick_range"
    and all: "\<forall>gs \<in> set rows. length gs = length pt_thick_range
                 \<and> (\<forall>g \<in> set gs. getitem00 (fst g) = Inr (snd g))"
    and t: "trace v' = trace v @ sweep_events sample rows"
    by blast
  let ?F = "\<lambda>yig_thick (gs :: ('f list list \<times> 'f) list). map (\<lambda>(pt_thick, g).
              Underlayer_info sample angle_times yig_thick pt_thick (Inr (fst g)))
              (zip pt_thick_range gs) :: ('v, 'f) event list"
  let ?passes = "map (\<lambda>(t, gs). ?F t gs) (zip yig_thick_range rows)"
  have l: "length ?passes = length yig_thick_range" using len by simp
  have nth: "\<forall>i < length yig_thick_range. \<exists>gs. length gs = length pt_thick_range
                  \<and> ?passes ! i = map (\<lambda>(pt_thick, g).
                       Underlayer_info sample angle_times (yig_thick_range ! i) pt_thick (Inr g))
                       (zip pt_thick_range gs)"
  proof (intro allI impI)
    fix i assume i: "i < length yig_thick_range"
    with len all have "length (map fst (rows ! i)) = length pt_thick_range" by simp
    moreover from i len have "?passes ! i = map (\<lambda>(pt_thick, g).
                       Underlayer_info sample angle_times (yig_thick_range ! i) pt_thick (Inr g))
                       (zip pt_thick_range (map fst (rows ! i)))"
      by (simp add: zip_map2 case_prod_unfold)
    ultimately show "\<exists>gs. length gs = length pt_thick_range
                  \<and> ?passes ! i = map (\<lambda>(pt_thick, g).
                       Underlayer_info sample angle_times (yig_thick_range ! i) pt_thick (Inr g))
                       (zip pt_thick_range gs)"
      by blast
  qed
  have np: "\<forall>c \<in> set ?passes. c \<noteq> [] \<and> (\<forall>ev \<in> set c. \<not> is_print ev)"
  proof
    fix c assume "c \<in> set ?passes"
    then obtain i where i: "i < length yig_thick_range" and c: "c = ?passes ! i"
      using l by (metis in_set_conv_nth)
    from nth i c obtain gs :: "'f list list list" where gs: "length gs = length pt_thick_range"
      "c = map (\<lambda>(pt_thick, g).
                       Underlayer_info sample angle_times (yig_thick_range ! i) pt_thick (Inr g))
                       (zip pt_thick_range gs)" by auto
    from gs(1) have "length (zip pt_thick_range gs) = 50"
      by (simp add: pt_thick_range_facts(1))
    then have "zip pt_thick_range gs \<noteq> []" by auto
    with gs(2) have "c \<noteq> []" by simp
    moreover from gs(2) have "\<forall>ev \<in> set c. \<not> is_print ev" by auto
    ultimately show "c \<noteq> [] \<and> (\<forall>ev \<in> set c. \<not> is_print ev)" by blast
  qed
  have ce: "sweep_events sample rows
        = concat (map (\<lambda>(i, c). sweep_progress i @ c) (enumerate 0 ?passes))"
    unfolding sweep_events_def yig_events_def
    using concat_passes [OF len, of sweep_progress ?F 0] by simp
  have "filter is_print (concat (map (\<lambda>(i, c). sweep_progress i @ c) (enumerate 0 ?passes)))
        = concat (map sweep_progress [0..<0 + length ?passes])"
  proof (rule filter_passes)
    show "\<forall>c \<in> set ?passes. \<forall>ev \<in> set c. \<not> is_print ev" using np by blast
    show "\<forall>ev \<in> set (sweep_progress i). is_print ev" for i by (rule sweep_progress_print)
  qed
  then have f: "filter is_print (sweep_events sample rows) = concat (map sweep_progress [0..<60])"
    unfolding l yig_thick_range_facts(1) ce by simp
  have "trace v' = trace v @ concat (map (\<lambda>(i, c).
                  (if i mod 5 = 0
                   then [Print (progress_line (i * length pt_thick_range)
                                  (length pt_thick_range * length yig_thick_range))]
                   else []) @ c)
                  (enumerate 0 ?passes))"
    using t ce by (simp add: sweep_progress_def)
  moreover have "filter is_print (drop (length (trace v)) (trace v'))
                = map Print [''>>> 0/3000'', ''>>> 250/3000'', ''>>> 500/3000'', ''>>> 750/3000'',
                    ''>>> 1000/3000'', ''>>> 1250/3000'', ''>>> 1500/3000'', ''>>> 1750/3000'',
                    ''>>> 2000/3000'', ''>>> 2250/3000'', ''>>> 2500/3000'', ''>>> 2750/3000'']"
    using t f sweep_progress_lines by simp
  ultimately show "\<exists>passes. length passes = length yig_thick_range
            \<and> (\<forall>i < length yig_thick_range. \<exists>gs. length gs = length pt_thick_range
                  \<and> passes ! i = map (\<lambda>(pt_thick, g).
                       Underlayer_info sample angle_times (yig_thick_range ! i) pt_thick (Inr g))
                       (zip pt_thick_range gs))
            \<and> (\<forall>c \<in> set passes. c \<noteq> [] \<and> (\<forall>ev \<in> set c. \<not> is_print ev))
            \<and> trace v' = trace v @ concat (map (\<lambda>(i, c).
                  (if i mod 5 = 0
                   then [Print (progress_line (i * length pt_thick_range)
                                  (length pt_thick_range * length yig_thick_range))]
                   else []) @ c)
                  (enumerate 0 passes))
            \<and> filter is_print (drop (length (trace v)) (trace v'))
                = map Print [''>>> 0/3000'', ''>>> 250/3000'', ''>>> 500/3000'', ''>>> 750/3000'',
                    ''>>> 1000/3000'', ''>>> 1250/3000'', ''>>> 1500/3000'', ''>>> 1750/3000'',
                    ''>>> 2000/3000'', ''>>> 2250/3000'', ''>>> 2500/3000'', ''>>> 2750/3000'']"
    using l nth np by (intro exI [of _ ?passes]) blast
qed

theorem progress_prints_witness:
  "\<exists>ratios w' s v'. calc_log_ratios toy 26 world0 = (Inr ratios, w')
     \<and> fisher_sweep toy 0 world0 = (Inr s, v')
     \<and> filter is_print (trace w')
         = map Print [''>>> 0/100'', ''>>> 20/100'', ''>>> 40/100'', ''>>> 60/100'', ''>>> 80/100'']
     \<and> length (filter is_print (trace v')) = 12"
proof -
  from succeeds_calc_log_ratios [OF never_raises_toy, of 26]
  obtain ratios w' where run: "calc_log_ratios toy 26 world0 = (Inr ratios, w')"
    unfolding succeeds_def by blast
  from succeeds_fisher_sweep_toy [of 0] obtain s v' where sweep: "fisher_sweep toy 0 world0 = (Inr s, v')"
    unfolding succeeds_def by blast
  from progress_prints [OF run sweep] have
    "filter is_print (drop (length (trace world0)) (trace w'))
       = map Print [''>>> 0/100'', ''>>> 20/100'', ''>>> 40/100'', ''>>> 60/100'', ''>>> 80/100'']"
    "filter is_print (drop (length (trace world0)) (trace v'))
                = map Print [''>>> 0/3000'', ''>>> 250/3000'', ''>>> 500/3000'', ''>>> 750/3000'',
                    ''>>> 1000/3000'', ''>>> 1250/3000'', ''>>> 1500/3000'', ''>>> 1750/3000'',
                    ''>>> 2000/3000'', ''>>> 2250/3000'', ''>>> 2500/3000'', ''>>> 2750/3000'']"
    by blast+
  then have "filter is_print (trace w')
         = map Print [''>>> 0/100'', ''>>> 20/100'', ''>>> 40/100'', ''>>> 60/100'', ''>>> 80/100'']"
    "length (filter is_print (trace v')) = 12"
    by (simp_all add: world0_def)
  with run sweep show ?thesis by blast
qed


section \<open>Exceptions\<close>





















section \<open>Plotting a reflectivity curve\<close>







section \<open>The log-ratio figure\<close>

lemma plot_x_exact:
  "list_all (\<lambda>t. fmul (3 / 2) t = 3 / 2 * t \<and> 3 / 2 * t \<noteq> 2 * t) times"
  apply (simp only: times_eval list.pred_inject)
  apply (simp add: fmul_def fl_core)
  done

lemma emit_Inr:
  assumes "emit ev w = (Inr u, w1)"
  shows "ext w1 = ext w \<and> trace w1 = trace w @ [ev]"
  using assms by (auto simp: emit_def)

text \<open>
  C9: the cell that draws the log-ratio figure, when it completes, has drawn two curves, one
  from \<open>calc_log_ratios(26)\<close> and one from \<open>calc_log_ratios(80)\<close>, both against the same
  x values \<open>1.5*times\<close>: the \<open>i\<close>-th x value is exactly \<open>1.5\<close> times \<open>times[i]\<close>, the
  \<open>total_time\<close> of the simulations behind the \<open>i\<close>-th ratio, and it is not \<open>2\<close> times that
  value.
\<close>

theorem log_ratio_figure_x:
  fixes E :: "('v, 'f, 'x) hogben"
  assumes "log_ratio_figure E w = (Inr u, w')"
  shows "\<exists>runs_26 runs_80 xs.
           length runs_26 = length times \<and> length runs_80 = length times
         \<and> (\<forall>its \<in> set runs_26 \<union> set runs_80. length its = 20)
         \<and> length xs = length times
         \<and> (\<forall>i < length times. xs ! i = 3 / 2 * times ! i \<and> xs ! i \<noteq> 2 * times ! i)
         \<and> xs = map (fmul (3 / 2)) times
         \<and> trace w' = trace w @ [Figure 6 7, Add_subplot 111]
              @ calc_events 26 runs_26
              @ [Plot_times xs (map (\<lambda>its. median E (map (ratio_of E) its)) runs_26)
                   [(''label'', ''26'' @ angstrom @ '' Pt Thickness'')]]
              @ calc_events 80 runs_80
              @ [Plot_times xs (map (\<lambda>its. median E (map (ratio_of E) its)) runs_80)
                   [(''label'', ''80'' @ angstrom @ '' Pt Thickness'')],
                 Set_xlabel ''Counting Time (min.)'' [(''fontsize'', ''11''), (''weight'', ''bold'')],
                 Set_ylabel ''Log Ratio of Likelihoods'' [(''fontsize'', ''11''), (''weight'', ''bold'')],
                 Legend]"
proof -
  let ?xs = "map (fmul (3 / 2)) times"
  from assms obtain u1 w1 u2 w2 r26 w3 u4 w4 r80 w5 u6 w6 u7 w7 u8 w8 where
    1: "emit (Figure 6 7) w = (Inr u1, w1)"
    and 2: "emit (Add_subplot 111) w1 = (Inr u2, w2)"
    and 3: "calc_log_ratios E 26 w2 = (Inr r26, w3)"
    and 4: "emit (Plot_times ?xs r26 [(''label'', ''26'' @ angstrom @ '' Pt Thickness'')]) w3 = (Inr u4, w4)"
    and 5: "calc_log_ratios E 80 w4 = (Inr r80, w5)"
    and 6: "emit (Plot_times ?xs r80 [(''label'', ''80'' @ angstrom @ '' Pt Thickness'')]) w5 = (Inr u6, w6)"
    and 7: "emit (Set_xlabel ''Counting Time (min.)'' [(''fontsize'', ''11''), (''weight'', ''bold'')]) w6 = (Inr u7, w7)"
    and 8: "emit (Set_ylabel ''Log Ratio of Likelihoods'' [(''fontsize'', ''11''), (''weight'', ''bold'')]) w7 = (Inr u8, w8)"
    and 9: "emit Legend w8 = (Inr u, w')"
    unfolding log_ratio_figure_def by (elim bnd_InrE) blast
  from calc_log_ratios_Inr [OF 3] obtain runs_26 where
    a: "length runs_26 = length times" "\<forall>its \<in> set runs_26. length its = 20"
       "trace w3 = trace w2 @ calc_events 26 runs_26"
       "r26 = map (\<lambda>its. median E (map (ratio_of E) its)) runs_26"
    by blast
  from calc_log_ratios_Inr [OF 5] obtain runs_80 where
    b: "length runs_80 = length times" "\<forall>its \<in> set runs_80. length its = 20"
       "trace w5 = trace w4 @ calc_events 80 runs_80"
       "r80 = map (\<lambda>its. median E (map (ratio_of E) its)) runs_80"
    by blast
  have x: "\<forall>i < length times. ?xs ! i = 3 / 2 * times ! i \<and> ?xs ! i \<noteq> 2 * times ! i"
  proof (intro allI impI)
    fix i assume i: "i < length times"
    then have "times ! i \<in> set times" by simp
    with plot_x_exact have "fmul (3 / 2) (times ! i) = 3 / 2 * times ! i
        \<and> 3 / 2 * times ! i \<noteq> 2 * times ! i"
      unfolding list_all_iff by blast
    with i show "?xs ! i = 3 / 2 * times ! i \<and> ?xs ! i \<noteq> 2 * times ! i" by simp
  qed
  have t: "trace w' = trace w @ [Figure 6 7, Add_subplot 111]
              @ calc_events 26 runs_26
              @ [Plot_times ?xs (map (\<lambda>its. median E (map (ratio_of E) its)) runs_26)
                   [(''label'', ''26'' @ angstrom @ '' Pt Thickness'')]]
              @ calc_events 80 runs_80
              @ [Plot_times ?xs (map (\<lambda>its. median E (map (ratio_of E) its)) runs_80)
                   [(''label'', ''80'' @ angstrom @ '' Pt Thickness'')],
                 Set_xlabel ''Counting Time (min.)'' [(''fontsize'', ''11''), (''weight'', ''bold'')],
                 Set_ylabel ''Log Ratio of Likelihoods'' [(''fontsize'', ''11''), (''weight'', ''bold'')],
                 Legend]"
    using emit_Inr [OF 1] emit_Inr [OF 2] emit_Inr [OF 4] emit_Inr [OF 6] emit_Inr [OF 7]
      emit_Inr [OF 8] emit_Inr [OF 9] a(3,4) b(3,4)
    by simp
  show ?thesis
    apply (rule exI [of _ runs_26], rule exI [of _ runs_80], rule exI [of _ ?xs])
    using a(1,2) b(1,2) x t by auto
qed

lemma succeeds_log_ratio_figure:
  assumes "never_raises E"
  shows "succeeds (log_ratio_figure E)"
  unfolding log_ratio_figure_def using assms
  by (intro succeeds_bnd succeeds_emit succeeds_calc_log_ratios)

theorem log_ratio_figure_x_witness:
  "\<exists>w' xs ys kw. log_ratio_figure toy world0 = (Inr (), w')
      \<and> Plot_times xs ys kw \<in> set (trace w') \<and> xs ! 0 = 60 \<and> xs ! 0 \<noteq> 2 * times ! 0"
proof -
  from succeeds_log_ratio_figure [OF never_raises_toy]
  obtain w' where run: "log_ratio_figure toy world0 = (Inr (), w')"
    unfolding succeeds_def by (metis old.unit.exhaust)
  from log_ratio_figure_x [OF run] obtain runs_26 runs_80 xs where
    x: "\<forall>i < length times. xs ! i = 3 / 2 * times ! i \<and> xs ! i \<noteq> 2 * times ! i"
    and t: "trace w' = trace world0 @ [Figure 6 7, Add_subplot 111]
              @ calc_events 26 runs_26
              @ [Plot_times xs (map (\<lambda>its. median toy (map (ratio_of toy) its)) runs_26)
                   [(''label'', ''26'' @ angstrom @ '' Pt Thickness'')]]
              @ calc_events 80 runs_80
              @ [Plot_times xs (map (\<lambda>its. median toy (map (ratio_of toy) its)) runs_80)
                   [(''label'', ''80'' @ angstrom @ '' Pt Thickness'')],
                 Set_xlabel ''Counting Time (min.)'' [(''fontsize'', ''11''), (''weight'', ''bold'')],
                 Set_ylabel ''Log Ratio of Likelihoods'' [(''fontsize'', ''11''), (''weight'', ''bold'')],
                 Legend]"
    by blast
  from x have "xs ! 0 = 3 / 2 * times ! 0 \<and> xs ! 0 \<noteq> 2 * times ! 0"
    by (simp add: length_times)
  moreover have "times ! 0 = 40" by (simp add: times_eval)
  ultimately have x0: "xs ! 0 = 60" "xs ! 0 \<noteq> 2 * times ! 0" by simp_all
  from t have "Plot_times xs (map (\<lambda>its. median toy (map (ratio_of toy) its)) runs_26)
                   [(''label'', ''26'' @ angstrom @ '' Pt Thickness'')] \<in> set (trace w')"
    by simp
  with run x0 show ?thesis by blast
qed


end
